theory Spec2Isabelle
  imports Main "HOL-Library.AList"
begin

section \<open>Data model\<close>

text \<open>
  The inventory service keeps item documents in a Mongo collection and talks to a message
  broker. The collection is a list of documents in storage order; a document handle (what
  \<^verbatim>\<open>findOne\<close> returns and \<^verbatim>\<open>save\<close> writes back) is the position of
  the document together with its fields, the position playing the part of \<^verbatim>\<open>_id\<close>.
  Quantities are JavaScript numbers in the source, that is IEEE doubles. They are the
  integer-valued doubles here, each given as the integer it is; the ledger is specified to hold
  integer quantities, and fractional quantities are outside the model. Comparing two of them is
  exact. Subtracting and adding round the exact result to the nearest double (section
  \<open>Numbers and strings\<close>), so beyond \<open>2^53\<close> the arithmetic of the source is not the
  arithmetic of the integers. The price is carried along and never computed with. The
  \<^verbatim>\<open>createdAt\<close> and \<^verbatim>\<open>updatedAt\<close> stamps that Mongoose keeps on a document
  are not part of the record.
\<close>

record Inventory =
  productCode :: string
  name :: string
  description :: string
  quantity :: int
  price :: int

datatype InventoryEventType = STOCK_ADDED | STOCK_REDUCED | STOCK_UPDATED

text \<open>The string value of each member of the enum \<^verbatim>\<open>InventoryEventType\<close>.\<close>

fun eventTypeValue :: "InventoryEventType \<Rightarrow> string" where
  "eventTypeValue STOCK_ADDED = ''STOCK_ADDED''"
| "eventTypeValue STOCK_REDUCED = ''STOCK_REDUCED''"
| "eventTypeValue STOCK_UPDATED = ''STOCK_UPDATED''"

record StockUpdateEvent =
  eventType :: InventoryEventType
  eventProductCode :: string
  previousQuantity :: int
  newQuantity :: int
  timestamp :: nat
  productName :: "string option"

record StockCheckItem =
  itemProductCode :: string
  itemQuantity :: int

text \<open>What \<^verbatim>\<open>checkStock\<close> returns, and the same with the product code spread in.\<close>

record StockCheckResult =
  available :: bool
  message :: string
  currentStock :: int

record StockCheckDetail =
  detailProductCode :: string
  detailAvailable :: bool
  detailMessage :: string
  detailCurrentStock :: int

record StockCheckResponse =
  checkSuccess :: bool
  checkMessage :: string
  availableStock :: "(string \<times> int) list"
  details :: "StockCheckDetail list"

record StockDeductResponse =
  deductSuccess :: bool
  deductMessage :: string
  deductions :: "StockCheckItem list option"

datatype payload =
  EventPayload StockUpdateEvent
| CheckReply StockCheckResponse
| DeductReply StockDeductResponse

datatype error =
  NotFoundException string
| ConflictException string
| Error string

fun errorMessage :: "error \<Rightarrow> string" where
  "errorMessage (NotFoundException m) = m"
| "errorMessage (ConflictException m) = m"
| "errorMessage (Error m) = m"

datatype RabbitMQQueues = STOCK_CHECK | STOCK_DEDUCT | ORDER_STOCK_DEDUCT | ORDER_STOCK_CHECK

fun queueName :: "RabbitMQQueues \<Rightarrow> string" where
  "queueName STOCK_CHECK = ''stock.check.requests''"
| "queueName STOCK_DEDUCT = ''stock.deduct.requests''"
| "queueName ORDER_STOCK_DEDUCT = ''ORDER_STOCK_DEDUCT''"
| "queueName ORDER_STOCK_CHECK = ''ORDER_STOCK_CHECK''"

definition INVENTORY :: string where
  "INVENTORY = ''inventory.exchange''"

section \<open>The broker as the code sees it\<close>

text \<open>
  Whether a connection attempt or a \<^verbatim>\<open>channel.publish\<close> call succeeds is decided outside
  the program. The broker is therefore a pair of scripts: the outcome of the \<open>n\<close>-th call of
  \<^verbatim>\<open>connect()\<close> and of the \<open>n\<close>-th call of \<^verbatim>\<open>channel.publish\<close>, counted from the
  start of the process. Every theorem below holds for every script.

  The repository calls, the loggers and \<^verbatim>\<open>channel.ack\<close> are taken not to fail. The
  \<^verbatim>\<open>error\<close> and \<^verbatim>\<open>close\<close> callbacks of a connection, which start
  \<^verbatim>\<open>handleReconnect\<close> on their own, and the interleaving of handlers that run at the same
  time are outside the model: each operation below runs from its call to its return.

  A connection attempt can fail at three places: \<^verbatim>\<open>amqplib.connect\<close> itself (nothing is
  assigned), \<^verbatim>\<open>createChannel\<close> (the connection field is assigned, the channel field is
  not), or the topology and consumer set-up that follows (both fields are assigned before the
  exception leaves \<^verbatim>\<open>connect()\<close>).
\<close>

datatype connect_outcome =
  ConnectThrows string
| CreateChannelThrows string
| SetupThrows string
| Established

record broker =
  connect_script :: "nat \<Rightarrow> connect_outcome"
  publish_script :: "nat \<Rightarrow> string option"

datatype conn_event = Attempt connect_outcome | Delay nat | Cleanup

datatype log_entry =
  EsLog string string
| EsError string string
| NestLog string
| NestWarn string
| NestError string

record published =
  exchange :: string
  routingKey :: string
  content :: payload
  correlationId :: "string option"

text \<open>
  The state of the process. Besides the ledger and the fields of \<^verbatim>\<open>RabbitMQService\<close>
  it holds what the program has done to the outside so far: the connection manager's attempts,
  delays and clean-ups in order, every call of \<^verbatim>\<open>channel.publish\<close> (whether it threw or
  not), every call of \<^verbatim>\<open>RabbitMQService.publish\<close>, the acknowledged deliveries and the
  log lines. \<open>clock\<close> is the wall clock in milliseconds.
\<close>

record world =
  ledger :: "Inventory list"
  connection :: bool
  channel :: bool
  isConnecting :: bool
  conn_log :: "conn_event list"
  channel_publishes :: "published list"
  publish_calls :: "published list"
  acks :: "nat list"
  logs :: "log_entry list"
  clock :: nat

type_synonym 'a result = "(error + 'a) \<times> world"

section \<open>Numbers and strings\<close>

text \<open>
  The number of binary digits of a natural number.
\<close>

fun bitLength :: "nat \<Rightarrow> nat" where
  "bitLength n = (if n = 0 then 0 else Suc (bitLength (n div 2)))"

declare bitLength.simps [simp del]

text \<open>
  A double has 53 significant binary digits. An integer of at most 53 binary digits is a double;
  a longer one is rounded to the nearest integer that has only zeros below its leading 53
  digits, and of two equally near ones to the one whose 53-digit significand is even. This is
  what \<^verbatim>\<open>a - b\<close> and \<^verbatim>\<open>a + b\<close> do to the exact difference and sum of
  integer-valued doubles. Overflow to \<^verbatim>\<open>Infinity\<close>, at \<open>2^1024\<close>, is outside the
  model.
\<close>

definition roundToDouble :: "int \<Rightarrow> int" where
  "roundToDouble x =
     (let a = nat \<bar>x\<bar>; n = bitLength a
      in if n \<le> 53 then x
         else (let ulp = 2 ^ (n - 53);
                   m = a div ulp;
                   r = a mod ulp;
                   half = ulp div 2;
                   m' = (if r < half then m
                         else if half < r then m + 1
                         else if even m then m else m + 1)
               in sgn x * int (m' * ulp)))"

definition numberSub :: "int \<Rightarrow> int \<Rightarrow> int" where
  "numberSub a b = roundToDouble (a - b)"

definition numberAdd :: "int \<Rightarrow> int \<Rightarrow> int" where
  "numberAdd a b = roundToDouble (a + b)"

text \<open>
  A number inside a template literal prints as its decimal digits, with a minus sign when
  negative. That is what JavaScript prints for an integer below \<open>10^21\<close> in magnitude; from
  there on it prints an exponent form, which is not modelled.
\<close>

definition digitChar :: "nat \<Rightarrow> char" where
  "digitChar d = ''0123456789'' ! d"

fun digits :: "nat \<Rightarrow> string" where
  "digits n = (if n < 10 then [digitChar n] else digits (n div 10) @ [digitChar (n mod 10)])"

declare digits.simps [simp del]

definition numberToString :: "int \<Rightarrow> string" where
  "numberToString i = (if i < 0 then CHR ''-'' # digits (nat (- i)) else digits (nat i))"

text \<open>\<^verbatim>\<open>String.prototype.toLowerCase\<close> on the ASCII letters, which is all the enum values hold.\<close>

definition lowerChar :: "char \<Rightarrow> char" where
  "lowerChar c =
     (let n = (of_char c :: nat) in if 65 \<le> n \<and> n \<le> 90 then char_of (n + 32) else c)"

definition toLowerCase :: "string \<Rightarrow> string" where
  "toLowerCase s = map lowerChar s"

text \<open>\<^verbatim>\<open>Array.prototype.join\<close>.\<close>

fun join :: "string \<Rightarrow> string list \<Rightarrow> string" where
  "join sep [] = []"
| "join sep [s] = s"
| "join sep (s # t # ss) = s @ sep @ join sep (t # ss)"

section \<open>Ledger: the repository\<close>

text \<open>
  \<^verbatim>\<open>Model.findOne\<close> returns the first document that matches, with its position.
\<close>

fun findOneFrom :: "nat \<Rightarrow> ('a \<Rightarrow> bool) \<Rightarrow> 'a list \<Rightarrow> (nat \<times> 'a) option" where
  "findOneFrom i p [] = None"
| "findOneFrom i p (d # ds) = (if p d then Some (i, d) else findOneFrom (Suc i) p ds)"

definition findOne :: "('a \<Rightarrow> bool) \<Rightarrow> 'a list \<Rightarrow> (nat \<times> 'a) option" where
  "findOne p ds = findOneFrom 0 p ds"

definition findItemById :: "string \<Rightarrow> world \<Rightarrow> (nat \<times> Inventory) option" where
  "findItemById code w = findOne (\<lambda>d. productCode d = code) (ledger w)"

text \<open>\<^verbatim>\<open>document.save()\<close>: the document is written back where it was read.\<close>

definition save :: "nat \<times> Inventory \<Rightarrow> world \<Rightarrow> world" where
  "save doc w = w\<lparr>ledger := (ledger w)[fst doc := snd doc]\<rparr>"

text \<open>
  \<^verbatim>\<open>findOneAndUpdate({productCode}, {quantity}, {new: true})\<close>: the first match gets the
  new quantity and is returned as updated; no match changes nothing and returns null.
\<close>

definition repoUpdateStock :: "string \<Rightarrow> int \<Rightarrow> world \<Rightarrow> (nat \<times> Inventory) option \<times> world" where
  "repoUpdateStock code q w =
     (case findOne (\<lambda>d. productCode d = code) (ledger w) of
        None \<Rightarrow> (None, w)
      | Some (i, d) \<Rightarrow>
          (Some (i, d\<lparr>quantity := q\<rparr>), w\<lparr>ledger := (ledger w)[i := d\<lparr>quantity := q\<rparr>]\<rparr>))"

definition esLog :: "string \<Rightarrow> string \<Rightarrow> world \<Rightarrow> world" where
  "esLog m ctx w = w\<lparr>logs := logs w @ [EsLog m ctx]\<rparr>"

definition esError :: "string \<Rightarrow> string \<Rightarrow> world \<Rightarrow> world" where
  "esError m tr w = w\<lparr>logs := logs w @ [EsError m tr]\<rparr>"

definition nestLog :: "log_entry \<Rightarrow> world \<Rightarrow> world" where
  "nestLog e w = w\<lparr>logs := logs w @ [e]\<rparr>"

section \<open>Connection manager and event publisher: \<^verbatim>\<open>RabbitMQService\<close>\<close>

definition maxRetries :: nat where
  "maxRetries = 5"

definition retryDelay :: nat where
  "retryDelay = 5000"

fun isAttempt :: "conn_event \<Rightarrow> bool" where
  "isAttempt (Attempt out) = True"
| "isAttempt (Delay ms) = False"
| "isAttempt Cleanup = False"

definition attempts :: "world \<Rightarrow> nat" where
  "attempts w = length (filter isAttempt (conn_log w))"

text \<open>
  \<^verbatim>\<open>connect()\<close>: the broker's script decides how far the attempt gets. The exchange, queue
  and binding declarations and the two \<^verbatim>\<open>consume\<close> registrations are the set-up step.
\<close>

definition connect :: "broker \<Rightarrow> world \<Rightarrow> unit result" where
  "connect env w =
     (let out = connect_script env (attempts w);
          w0 = w\<lparr>conn_log := conn_log w @ [Attempt out]\<rparr>
      in case out of
           ConnectThrows m \<Rightarrow> (Inl (Error m), w0)
         | CreateChannelThrows m \<Rightarrow> (Inl (Error m), w0\<lparr>connection := True\<rparr>)
         | SetupThrows m \<Rightarrow> (Inl (Error m), w0\<lparr>connection := True, channel := True\<rparr>)
         | Established \<Rightarrow> (Inr (), w0\<lparr>connection := True, channel := True\<rparr>))"

text \<open>\<^verbatim>\<open>await new Promise((resolve) => setTimeout(resolve, ms))\<close>.\<close>

definition sleep :: "nat \<Rightarrow> world \<Rightarrow> world" where
  "sleep ms w = w\<lparr>conn_log := conn_log w @ [Delay ms], clock := clock w + ms\<rparr>"

function connectWithRetry :: "broker \<Rightarrow> nat \<Rightarrow> world \<Rightarrow> world" where
  "connectWithRetry env retryCount w =
     (if isConnecting w then w
      else
        (case connect env (w\<lparr>isConnecting := True\<rparr>) of
           (Inr u, w1) \<Rightarrow>
             (nestLog (NestLog ''RabbitMQ connection established successfully'') w1)
               \<lparr>isConnecting := False\<rparr>
         | (Inl e, w1) \<Rightarrow>
             (let w2 = nestLog (NestError (''Failed to connect to RabbitMQ (Attempt ''
                         @ numberToString (int retryCount + 1) @ ''/''
                         @ numberToString (int maxRetries) @ '')'')) w1
              in if retryCount < maxRetries
                 then connectWithRetry env (retryCount + 1)
                        (sleep retryDelay (w2\<lparr>isConnecting := False\<rparr>))
                 else nestLog (NestError (''Failed to connect after ''
                         @ numberToString (int maxRetries) @ '' attempts''))
                        (w2\<lparr>isConnecting := False\<rparr>))))"
  by pat_completeness auto
termination
  by (relation "measure (\<lambda>(env, retryCount, w). Suc maxRetries - retryCount)") auto

declare connectWithRetry.simps [simp del]

text \<open>
  \<^verbatim>\<open>cleanup()\<close> closes the channel and the connection and catches what that throws; it
  clears neither field.
\<close>

definition cleanup :: "world \<Rightarrow> world" where
  "cleanup w = w\<lparr>conn_log := conn_log w @ [Cleanup]\<rparr>"

definition handleReconnect :: "broker \<Rightarrow> world \<Rightarrow> world" where
  "handleReconnect env w = connectWithRetry env 0 (cleanup w)"

text \<open>
  One call of \<^verbatim>\<open>this.channel.publish\<close>: the call is recorded, and the script says
  whether it throws.
\<close>

definition channelPublish ::
  "broker \<Rightarrow> string \<Rightarrow> string \<Rightarrow> payload \<Rightarrow> string option \<Rightarrow> world \<Rightarrow> unit result" where
  "channelPublish env x k c corr w =
     (let w1 = w\<lparr>channel_publishes := channel_publishes w @
                  [\<lparr>exchange = x, routingKey = k, content = c, correlationId = corr\<rparr>]\<rparr>
      in case publish_script env (length (channel_publishes w)) of
           None \<Rightarrow> (Inr (), w1)
         | Some m \<Rightarrow> (Inl (Error m), w1))"

text \<open>The \<^verbatim>\<open>try\<close>/\<^verbatim>\<open>catch\<close> of \<^verbatim>\<open>publish\<close>.\<close>

definition publishTry :: "broker \<Rightarrow> string \<Rightarrow> string \<Rightarrow> payload \<Rightarrow> world \<Rightarrow> unit result" where
  "publishTry env x k c w =
     (case channelPublish env x k c None w of
        (Inr u, w1) \<Rightarrow>
          (Inr (), nestLog (NestLog (''Published message to '' @ x @ '' with routing key '' @ k)) w1)
      | (Inl e, w1) \<Rightarrow>
          (let w2 = handleReconnect env
                      (nestLog (NestError (''Failed to publish message to '' @ x)) w1)
           in if channel w2 then channelPublish env x k c None w2 else (Inr (), w2)))"

definition publish :: "broker \<Rightarrow> string \<Rightarrow> string \<Rightarrow> payload \<Rightarrow> world \<Rightarrow> unit result" where
  "publish env x k c w =
     (let w0 = w\<lparr>publish_calls := publish_calls w @
                  [\<lparr>exchange = x, routingKey = k, content = c, correlationId = None\<rparr>]\<rparr>
      in if \<not> channel w0
         then (let w1 = connectWithRetry env 0
                          (nestLog (NestWarn
                             ''RabbitMQ channel not available, attempting to reconnect...'') w0)
               in if \<not> channel w1
                  then (Inl (Error ''RabbitMQ channel is not initialized''), w1)
                  else publishTry env x k c w1)
         else publishTry env x k c w0)"

section \<open>Stock consistency orchestrator: \<^verbatim>\<open>InventoryService\<close>\<close>

definition publishStockUpdateEvent :: "broker \<Rightarrow> StockUpdateEvent \<Rightarrow> world \<Rightarrow> unit result" where
  "publishStockUpdateEvent env event w =
     (case publish env INVENTORY
             (''inventory.stock.'' @ toLowerCase (eventTypeValue (eventType event)))
             (EventPayload event) w of
        (Inr u, w1) \<Rightarrow>
          (Inr (), esLog (''Published '' @ eventTypeValue (eventType event)
                          @ '' event for product '' @ eventProductCode event)
                     ''InventoryService'' w1)
      | (Inl e, w1) \<Rightarrow>
          (Inl e, esError (''Failed to publish stock update event: '' @ errorMessage e)
                    ''InventoryService'' w1))"

definition getItem :: "string \<Rightarrow> world \<Rightarrow> (nat \<times> Inventory) result" where
  "getItem code w =
     (case findItemById code w of
        None \<Rightarrow> (Inl (NotFoundException ''Item not found''), w)
      | Some item \<Rightarrow>
          (Inr item, esLog (''Fetched stock for item '' @ name (snd item) @ '': ''
                            @ productCode (snd item)) ''InventoryService'' w))"

definition checkStock :: "string \<Rightarrow> int \<Rightarrow> world \<Rightarrow> StockCheckResult result" where
  "checkStock code qty w =
     (case findItemById code w of
        None \<Rightarrow>
          (Inr \<lparr>available = False, message = ''Item not found in inventory'', currentStock = 0\<rparr>,
           esLog (''Stock check failed: Product '' @ code @ '' not found'') ''InventoryService'' w)
      | Some inventory \<Rightarrow>
          (let avail = (quantity (snd inventory) \<ge> qty)
           in (Inr \<lparr>available = avail,
                    message = (if avail then ''Stock available''
                               else ''Insufficient stock. Requested: '' @ numberToString qty
                                    @ '', Available: ''
                                    @ numberToString (quantity (snd inventory))),
                    currentStock = quantity (snd inventory)\<rparr>, w)))"

text \<open>
  \<^verbatim>\<open>deductStock\<close>. The second not-found test of the source cannot fire: \<^verbatim>\<open>getItem\<close>
  has already thrown on a missing item.
\<close>

definition deductStock :: "broker \<Rightarrow> string \<Rightarrow> int \<Rightarrow> world \<Rightarrow> unit result" where
  "deductStock env code qty w =
     (case getItem code w of
        (Inl e, w1) \<Rightarrow> (Inl e, w1)
      | (Inr (i, inventory), w1) \<Rightarrow>
          if quantity inventory < qty
          then (Inl (Error (''Insufficient stock for '' @ name inventory @ ''. Requested: ''
                            @ numberToString qty @ '', Available: ''
                            @ numberToString (quantity inventory))), w1)
          else
            (let inventory' = inventory\<lparr>quantity := numberSub (quantity inventory) qty\<rparr>;
                 w2 = save (i, inventory') w1;
                 stockEvent = \<lparr>eventType = STOCK_REDUCED,
                               eventProductCode = code,
                               previousQuantity = numberAdd (quantity inventory') qty,
                               newQuantity = quantity inventory',
                               timestamp = clock w2,
                               productName = Some (name inventory')\<rparr>
             in publishStockUpdateEvent env stockEvent w2))"

definition updateStock ::
  "broker \<Rightarrow> string \<Rightarrow> int \<Rightarrow> world \<Rightarrow> (nat \<times> Inventory) option result" where
  "updateStock env code qty w =
     (case findItemById code w of
        None \<Rightarrow> (Inl (NotFoundException ''Item not found''), w)
      | Some (i, item) \<Rightarrow>
          (let previous = quantity item;
               (updatedItem, w1) = repoUpdateStock code qty w;
               evType = (if qty > previous then STOCK_ADDED else STOCK_REDUCED);
               stockEvent = \<lparr>eventType = evType,
                             eventProductCode = code,
                             previousQuantity = previous,
                             newQuantity = qty,
                             timestamp = clock w1,
                             productName = Some (name item)\<rparr>
           in case publishStockUpdateEvent env stockEvent w1 of
                (Inl e, w2) \<Rightarrow> (Inl e, w2)
              | (Inr u, w2) \<Rightarrow>
                  (Inr updatedItem,
                   esLog (''Stock updated for item '' @ name item @ ''. New stock: ''
                          @ numberToString qty) ''InventoryService'' w2)))"

section \<open>RPC responders\<close>

text \<open>
  A delivery as the consumer callback receives it. The body is what
  \<^verbatim>\<open>JSON.parse\<close> and the destructuring of \<^verbatim>\<open>items\<close> make of the bytes: a list of
  items, or the message of the exception they raise.
\<close>

datatype request_body = Malformed string | Items "StockCheckItem list"

record delivery =
  body :: request_body
  replyTo :: string
  requestCorrelationId :: string
  deliveryTag :: nat

definition ack :: "delivery \<Rightarrow> world \<Rightarrow> world" where
  "ack msg w = w\<lparr>acks := acks w @ [deliveryTag msg]\<rparr>"

text \<open>
  \<^verbatim>\<open>Promise.all(xs.map(async ...))\<close>: every task is started and runs to its end whether
  or not another one rejects; the result is the list of values in the order of \<open>xs\<close>, or the
  rejection of the first task that rejected. The tasks run here one after the other in the
  order of \<open>xs\<close>; interleavings at their \<^verbatim>\<open>await\<close> points are outside the model.
\<close>

fun promiseAll :: "('a \<Rightarrow> world \<Rightarrow> 'b result) \<Rightarrow> 'a list \<Rightarrow> world \<Rightarrow> 'b list result" where
  "promiseAll f [] w = (Inr [], w)"
| "promiseAll f (x # xs) w =
     (case f x w of
        (r, w1) \<Rightarrow>
          (case promiseAll f xs w1 of
             (rs, w2) \<Rightarrow>
               ((case r of
                   Inl e \<Rightarrow> Inl e
                 | Inr y \<Rightarrow> (case rs of Inl e \<Rightarrow> Inl e | Inr ys \<Rightarrow> Inr (y # ys))), w2)))"

text \<open>The per-item task of the stock-check responder.\<close>

definition checkItem :: "StockCheckItem \<Rightarrow> world \<Rightarrow> StockCheckDetail result" where
  "checkItem item w =
     (case checkStock (itemProductCode item) (itemQuantity item) w of
        (Inl e, w1) \<Rightarrow> (Inl e, w1)
      | (Inr result, w1) \<Rightarrow>
          (Inr \<lparr>detailProductCode = itemProductCode item,
                detailAvailable = available result,
                detailMessage = message result,
                detailCurrentStock = currentStock result\<rparr>, w1))"

text \<open>
  \<^verbatim>\<open>acc[key] = value\<close> on an object that began as \<^verbatim>\<open>{}\<close>, with a number as the
  value. The object keeps its keys in an association list: an existing key gets the new value in
  place, a new key is appended. The key \<^verbatim>\<open>__proto__\<close> is the exception: the assignment
  goes to the setter that \<^verbatim>\<open>Object.prototype\<close> has under that name, which ignores a
  number, so the object gets no such key.
\<close>

definition setProperty :: "string \<Rightarrow> int \<Rightarrow> (string \<times> int) list \<Rightarrow> (string \<times> int) list" where
  "setProperty key v acc = (if key = ''__proto__'' then acc else AList.update key v acc)"

definition responseMessage :: "StockCheckDetail list \<Rightarrow> StockCheckResponse" where
  "responseMessage stockCheckResults =
     \<lparr>checkSuccess = list_all detailAvailable stockCheckResults,
      checkMessage =
        (if list_all detailAvailable stockCheckResults then ''All items in stock''
         else join ''; ''
                (map detailMessage (filter (\<lambda>result. \<not> detailAvailable result) stockCheckResults))),
      availableStock =
        foldl (\<lambda>acc result. setProperty (detailProductCode result) (detailCurrentStock result) acc)
          [] stockCheckResults,
      details = stockCheckResults\<rparr>"

definition reply :: "broker \<Rightarrow> delivery \<Rightarrow> payload \<Rightarrow> world \<Rightarrow> unit result" where
  "reply env msg c w =
     (case channelPublish env [] (replyTo msg) c (Some (requestCorrelationId msg)) w of
        (Inl e, w1) \<Rightarrow> (Inl e, w1)
      | (Inr u, w1) \<Rightarrow> (Inr (), ack msg w1))"

definition stockCheckTry :: "broker \<Rightarrow> delivery \<Rightarrow> world \<Rightarrow> unit result" where
  "stockCheckTry env msg w =
     (case body msg of
        Malformed m \<Rightarrow> (Inl (Error m), w)
      | Items items \<Rightarrow>
          (case promiseAll checkItem items w of
             (Inl e, w1) \<Rightarrow> (Inl e, w1)
           | (Inr stockCheckResults, w1) \<Rightarrow>
               reply env msg (CheckReply (responseMessage stockCheckResults)) w1))"

definition stockCheckHandler :: "broker \<Rightarrow> delivery option \<Rightarrow> world \<Rightarrow> unit result" where
  "stockCheckHandler env msg w =
     (case msg of
        None \<Rightarrow> (Inr (), w)
      | Some m \<Rightarrow>
          (case stockCheckTry env m w of
             (Inr u, w1) \<Rightarrow> (Inr (), w1)
           | (Inl e, w1) \<Rightarrow>
               reply env m
                 (CheckReply \<lparr>checkSuccess = False, checkMessage = errorMessage e,
                              availableStock = [], details = []\<rparr>)
                 (nestLog (NestError ''Error processing stock check request'') w1)))"

text \<open>The per-item tasks of the stock-deduct responder: the upfront check, then the deduction.\<close>

record StockDeductCheck =
  checkedProductCode :: string
  checkedQuantity :: int
  checkedAvailable :: bool
  checkedCurrentStock :: int

definition deductCheckItem :: "StockCheckItem \<Rightarrow> world \<Rightarrow> StockDeductCheck result" where
  "deductCheckItem item w =
     (case checkStock (itemProductCode item) (itemQuantity item) w of
        (Inl e, w1) \<Rightarrow> (Inl e, w1)
      | (Inr check, w1) \<Rightarrow>
          (Inr \<lparr>checkedProductCode = itemProductCode item,
                checkedQuantity = itemQuantity item,
                checkedAvailable = available check,
                checkedCurrentStock = currentStock check\<rparr>, w1))"

definition deductItem :: "broker \<Rightarrow> StockCheckItem \<Rightarrow> world \<Rightarrow> unit result" where
  "deductItem env item w = deductStock env (itemProductCode item) (itemQuantity item) w"

definition stockDeductTry :: "broker \<Rightarrow> delivery \<Rightarrow> world \<Rightarrow> unit result" where
  "stockDeductTry env msg w =
     (case body msg of
        Malformed m \<Rightarrow> (Inl (Error m), w)
      | Items items \<Rightarrow>
          (case promiseAll deductCheckItem items w of
             (Inl e, w1) \<Rightarrow> (Inl e, w1)
           | (Inr stockChecks, w1) \<Rightarrow>
               (let allAvailable = list_all checkedAvailable stockChecks
                in if \<not> allAvailable
                   then (Inl (Error ''Some items are not available in requested quantity''), w1)
                   else
                     (case promiseAll (deductItem env) items w1 of
                        (Inl e, w2) \<Rightarrow> (Inl e, w2)
                      | (Inr us, w2) \<Rightarrow>
                          reply env msg
                            (DeductReply
                               \<lparr>deductSuccess = True,
                                deductMessage = ''Stock deducted successfully'',
                                deductions =
                                  Some (map (\<lambda>item. \<lparr>itemProductCode = itemProductCode item,
                                                      itemQuantity = itemQuantity item\<rparr>) items)\<rparr>)
                            w2))))"

definition stockDeductHandler :: "broker \<Rightarrow> delivery option \<Rightarrow> world \<Rightarrow> unit result" where
  "stockDeductHandler env msg w =
     (case msg of
        None \<Rightarrow> (Inr (), w)
      | Some m \<Rightarrow>
          (case stockDeductTry env m w of
             (Inr u, w1) \<Rightarrow> (Inr (), w1)
           | (Inl e, w1) \<Rightarrow>
               reply env m
                 (DeductReply
                    \<lparr>deductSuccess = False,
                     deductMessage =
                       (if errorMessage e = [] then ''Failed to deduct stock'' else errorMessage e),
                     deductions = None\<rparr>)
                 (nestLog (NestError ''Error processing stock deduction'') w1)))"

section \<open>Observations and sample states\<close>

text \<open>The number of times the connection was torn down for a reconnect.\<close>

definition reconnects :: "world \<Rightarrow> nat" where
  "reconnects w = length (filter (\<lambda>e. e = Cleanup) (conn_log w))"

text \<open>A ledger of two items at ten units each, on a live channel; used for the concrete checks.\<close>

definition itemA :: Inventory where
  "itemA = \<lparr>productCode = ''A'', name = ''Widget'', description = ''A widget'',
             quantity = 10, price = 100\<rparr>"

definition itemB :: Inventory where
  "itemB = \<lparr>productCode = ''B'', name = ''Gadget'', description = ''A gadget'',
             quantity = 10, price = 250\<rparr>"

definition shop :: world where
  "shop = \<lparr>ledger = [itemA, itemB], connection = True, channel = True, isConnecting = False,
            conn_log = [Attempt Established], channel_publishes = [], publish_calls = [],
            acks = [], logs = [], clock = 1000\<rparr>"

text \<open>A broker that accepts every connection and every publish.\<close>

definition healthy :: broker where
  "healthy = \<lparr>connect_script = (\<lambda>n. Established), publish_script = (\<lambda>n. None)\<rparr>"

text \<open>A broker that refuses every connection, and a process that has not connected yet.\<close>

definition refusing :: broker where
  "refusing = \<lparr>connect_script = (\<lambda>n. ConnectThrows ''ECONNREFUSED''),
               publish_script = (\<lambda>n. None)\<rparr>"

definition idle :: world where
  "idle = \<lparr>ledger = [], connection = False, channel = False, isConnecting = False,
            conn_log = [], channel_publishes = [], publish_calls = [],
            acks = [], logs = [], clock = 0\<rparr>"


definition restock :: StockUpdateEvent where
  "restock = \<lparr>eventType = STOCK_ADDED, eventProductCode = ''A'', previousQuantity = 10,
               newQuantity = 15, timestamp = 1000, productName = Some ''Widget''\<rparr>"

text \<open>A ledger whose one item is stored with \<open>2^53 + 2\<close> units.\<close>

definition crate :: Inventory where
  "crate = \<lparr>productCode = ''C'', name = ''Grain'', description = ''By the grain'',
             quantity = 9007199254740994, price = 1\<rparr>"

definition depot :: world where
  "depot = \<lparr>ledger = [crate], connection = True, channel = True, isConnecting = False,
             conn_log = [Attempt Established], channel_publishes = [], publish_calls = [],
             acks = [], logs = [], clock = 1000\<rparr>"

text \<open>
  A ledger that also stocks seven units under the product code \<^verbatim>\<open>__proto__\<close>, and a request
  for five of A and one of that.
\<close>

definition itemP :: Inventory where
  "itemP = \<lparr>productCode = ''__proto__'', name = ''Prototype'', description = ''A prototype'',
             quantity = 7, price = 5\<rparr>"

definition lab :: world where
  "lab = \<lparr>ledger = [itemA, itemP], connection = True, channel = True, isConnecting = False,
           conn_log = [Attempt Established], channel_publishes = [], publish_calls = [],
           acks = [], logs = [], clock = 1000\<rparr>"

definition probe :: delivery where
  "probe = \<lparr>body = Items [\<lparr>itemProductCode = ''A'', itemQuantity = 5\<rparr>,
                          \<lparr>itemProductCode = ''__proto__'', itemQuantity = 1\<rparr>],
             replyTo = ''amq.gen-reply'', requestCorrelationId = ''corr-2'', deliveryTag = 8\<rparr>"

text \<open>A request for five of A and twenty of B.\<close>

definition order :: delivery where
  "order = \<lparr>body = Items [\<lparr>itemProductCode = ''A'', itemQuantity = 5\<rparr>,
                          \<lparr>itemProductCode = ''B'', itemQuantity = 20\<rparr>],
             replyTo = ''amq.gen-reply'', requestCorrelationId = ''corr-1'', deliveryTag = 7\<rparr>"

section \<open>Properties of the ledger operations\<close>

lemma findOneFrom_Some:
  "findOneFrom i p ds = Some (j, d) \<Longrightarrow>
     i \<le> j \<and> j - i < length ds \<and> ds ! (j - i) = d \<and> p d \<and> (\<forall>k < j - i. \<not> p (ds ! k))"
proof (induction ds arbitrary: i)
  case Nil
  then show ?case by simp
next
  case (Cons a ds)
  show ?case
  proof (cases "p a")
    case True
    with Cons.prems show ?thesis by simp
  next
    case False
    with Cons.prems have "findOneFrom (Suc i) p ds = Some (j, d)" by simp
    from Cons.IH[OF this]
    have ih: "Suc i \<le> j" "j - Suc i < length ds" "ds ! (j - Suc i) = d" "p d"
      "\<forall>k < j - Suc i. \<not> p (ds ! k)" by simp_all
    from ih(1) have eq: "j - i = Suc (j - Suc i)" by arith
    from ih False show ?thesis
      unfolding eq by (auto simp: less_Suc_eq_0_disj)
  qed
qed

lemma findOne_Some:
  "findOne p ds = Some (j, d) \<Longrightarrow> j < length ds \<and> ds ! j = d \<and> p d \<and> (\<forall>k < j. \<not> p (ds ! k))"
  using findOneFrom_Some[of 0 p ds j d] by (simp add: findOne_def)

lemma findOneFrom_None: "findOneFrom i p ds = None \<longleftrightarrow> (\<forall>d \<in> set ds. \<not> p d)"
  by (induction ds arbitrary: i) auto

lemma findOneFrom_first:
  "j < length ds \<Longrightarrow> p (ds ! j) \<Longrightarrow> (\<forall>k < j. \<not> p (ds ! k)) \<Longrightarrow>
     findOneFrom i p ds = Some (i + j, ds ! j)"
proof (induction ds arbitrary: i j)
  case Nil
  then show ?case by simp
next
  case (Cons a ds)
  show ?case
  proof (cases j)
    case 0
    with Cons.prems show ?thesis by simp
  next
    case (Suc j')
    with Cons.prems have a: "\<not> p a" by auto
    from Cons.prems Suc have "\<forall>k < j'. \<not> p (ds ! k)" by auto
    with Cons.IH[of j' "Suc i"] Cons.prems Suc a show ?thesis by simp
  qed
qed

lemma findOne_first:
  "j < length ds \<Longrightarrow> p (ds ! j) \<Longrightarrow> (\<forall>k < j. \<not> p (ds ! k)) \<Longrightarrow> findOne p ds = Some (j, ds ! j)"
  using findOneFrom_first[of j ds p 0] by (simp add: findOne_def)

lemma findOne_update_same:
  assumes "findOne p ds = Some (j, d)" and "p d'"
  shows "findOne p (ds[j := d']) = Some (j, d')"
proof -
  from findOne_Some[OF assms(1)] have j: "j < length ds" and first: "\<forall>k < j. \<not> p (ds ! k)"
    by simp_all
  have "findOne p (ds[j := d']) = Some (j, ds[j := d'] ! j)"
    by (rule findOne_first) (use j first assms(2) in auto)
  with j show ?thesis by simp
qed

lemma findOneFrom_update_other:
  "j < length ds \<Longrightarrow> \<not> p (ds ! j) \<Longrightarrow> \<not> p d' \<Longrightarrow> findOneFrom i p (ds[j := d']) = findOneFrom i p ds"
proof (induction ds arbitrary: i j)
  case Nil
  then show ?case by simp
next
  case (Cons a ds)
  then show ?case by (cases j) auto
qed

lemma findOne_update_other:
  "j < length ds \<Longrightarrow> \<not> p (ds ! j) \<Longrightarrow> \<not> p d' \<Longrightarrow> findOne p (ds[j := d']) = findOne p ds"
  by (simp add: findOne_def findOneFrom_update_other)

lemma findItemById_None: "findItemById code w = None \<longleftrightarrow> code \<notin> productCode ` set (ledger w)"
  by (auto simp: findItemById_def findOne_def findOneFrom_None)

lemma bitLength_le: "n < 2 ^ k \<Longrightarrow> bitLength n \<le> k"
proof (induction k arbitrary: n)
  case 0
  then show ?case by (simp add: bitLength.simps)
next
  case (Suc k)
  show ?case
  proof (cases "n = 0")
    case True
    then show ?thesis by (simp add: bitLength.simps)
  next
    case False
    from Suc.prems have "n div 2 < 2 ^ k" by simp
    from Suc.IH[OF this] False show ?thesis by (subst bitLength.simps) simp
  qed
qed

lemma bitLength_pow2: "bitLength (2 ^ k) = Suc k"
proof (induction k)
  case 0
  have "bitLength (Suc 0) = Suc (bitLength 0)" by (subst bitLength.simps) simp
  then show ?case by (simp add: bitLength.simps[of 0])
next
  case (Suc k)
  have "bitLength (2 ^ Suc k) = Suc (bitLength (2 ^ Suc k div 2))"
    by (subst bitLength.simps) simp
  with Suc show ?case by simp
qed

text \<open>Every integer of magnitude at most \<open>2^53\<close> is a double.\<close>

lemma roundToDouble_exact:
  assumes "\<bar>x\<bar> \<le> 2 ^ 53"
  shows "roundToDouble x = x"
proof (cases "\<bar>x\<bar> = 2 ^ 53")
  case True
  then have a: "nat \<bar>x\<bar> = 2 ^ 53" by simp
  have s: "sgn x * 2 ^ 53 = x" using True by (cases "x < 0") (simp_all add: sgn_if)
  have "roundToDouble x = sgn x * int (2 ^ 52 * 2)"
    unfolding roundToDouble_def a bitLength_pow2 Let_def by simp
  with s show ?thesis by simp
next
  case False
  with assms have "nat \<bar>x\<bar> < 2 ^ 53" by simp
  from bitLength_le[OF this] show ?thesis by (simp add: roundToDouble_def Let_def)
qed

lemma roundToDouble_beyond:
  "roundToDouble 9007199254740993 = 9007199254740992"
  by (simp add: roundToDouble_def bitLength.simps Let_def)

lemma numberToString_examples:
  "numberToString 20 = ''20''" "numberToString 10 = ''10''" "numberToString 15 = ''15''"
  "numberToString 5 = ''5''" "numberToString 6 = ''6''"
  by (simp_all add: numberToString_def digits.simps digitChar_def)


section \<open>Properties of the connection manager and the publisher\<close>

lemma connect_shape:
  "\<exists>cl c ch. snd (connect env w) = w\<lparr>conn_log := cl, connection := c, channel := ch\<rparr>
      \<and> (channel w \<longrightarrow> ch)"
proof (cases "connect_script env (attempts w)")
  case (ConnectThrows m)
  have "snd (connect env w) = w\<lparr>conn_log := conn_log w @ [Attempt (ConnectThrows m)],
          connection := connection w, channel := channel w\<rparr>"
    using ConnectThrows by (simp add: connect_def)
  then show ?thesis by blast
next
  case (CreateChannelThrows m)
  have "snd (connect env w) = w\<lparr>conn_log := conn_log w @ [Attempt (CreateChannelThrows m)],
          connection := True, channel := channel w\<rparr>"
    using CreateChannelThrows by (simp add: connect_def)
  then show ?thesis by blast
next
  case (SetupThrows m)
  have "snd (connect env w) = w\<lparr>conn_log := conn_log w @ [Attempt (SetupThrows m)],
          connection := True, channel := True\<rparr>"
    using SetupThrows by (simp add: connect_def)
  then show ?thesis by blast
next
  case Established
  have "snd (connect env w) = w\<lparr>conn_log := conn_log w @ [Attempt Established],
          connection := True, channel := True\<rparr>"
    using Established by (simp add: connect_def)
  then show ?thesis by blast
qed

lemma connectWithRetry_shape:
  "\<exists>cl c ch ic lg ck. connectWithRetry env rc w =
       w\<lparr>conn_log := cl, connection := c, channel := ch, isConnecting := ic, logs := lg, clock := ck\<rparr>
     \<and> (channel w \<longrightarrow> ch)"
proof (induction env rc w rule: connectWithRetry.induct)
  case (1 env rc w)
  show ?case
  proof (cases "isConnecting w")
    case True
    have "connectWithRetry env rc w = w\<lparr>conn_log := conn_log w, connection := connection w,
        channel := channel w, isConnecting := isConnecting w, logs := logs w, clock := clock w\<rparr>"
      using True by (simp add: connectWithRetry.simps)
    then show ?thesis by blast
  next
    case False
    obtain r w1 where c: "connect env (w\<lparr>isConnecting := True\<rparr>) = (r, w1)"
      by (cases "connect env (w\<lparr>isConnecting := True\<rparr>)")
    from connect_shape[of env "w\<lparr>isConnecting := True\<rparr>"] c
    obtain cl c1 ch1 where w1: "w1 = w\<lparr>isConnecting := True, conn_log := cl, connection := c1, channel := ch1\<rparr>"
      and ch1: "channel w \<longrightarrow> ch1" by auto
    show ?thesis
    proof (cases r)
      case (Inr u)
      have "connectWithRetry env rc w = w\<lparr>conn_log := cl, connection := c1, channel := ch1,
          isConnecting := False,
          logs := logs w @ [NestLog ''RabbitMQ connection established successfully''],
          clock := clock w\<rparr>"
        using False c Inr w1 by (subst connectWithRetry.simps) (simp add: nestLog_def)
      with ch1 show ?thesis by blast
    next
      case (Inl e)
      show ?thesis
      proof (cases "rc < maxRetries")
        case True
        let ?w3 = "sleep retryDelay ((nestLog (NestError (''Failed to connect to RabbitMQ (Attempt ''
                         @ numberToString (int rc + 1) @ ''/''
                         @ numberToString (int maxRetries) @ '')'')) w1)\<lparr>isConnecting := False\<rparr>)"
        from "1.IH"[OF False c[symmetric] Inl refl True]
        obtain cl' c' ch' ic' lg' ck' where
          ih: "connectWithRetry env (rc + 1) ?w3 =
                 ?w3\<lparr>conn_log := cl', connection := c', channel := ch', isConnecting := ic',
                      logs := lg', clock := ck'\<rparr>"
          and ch': "channel ?w3 \<longrightarrow> ch'" by blast
        have step: "connectWithRetry env rc w = connectWithRetry env (rc + 1) ?w3"
          using False c Inl True by (subst connectWithRetry.simps) (simp add: Let_def)
        have "connectWithRetry env rc w = w\<lparr>conn_log := cl', connection := c', channel := ch',
              isConnecting := ic', logs := lg', clock := ck'\<rparr>"
          unfolding step ih by (simp add: w1 sleep_def nestLog_def)
        moreover have "channel w \<longrightarrow> ch'"
          using ch' ch1 by (simp add: w1 sleep_def nestLog_def)
        ultimately show ?thesis by blast
      next
        case nr: False
        have "connectWithRetry env rc w = w\<lparr>conn_log := cl, connection := c1, channel := ch1,
          isConnecting := False,
          logs := logs w @ [NestError (''Failed to connect to RabbitMQ (Attempt ''
                         @ numberToString (int rc + 1) @ ''/''
                         @ numberToString (int maxRetries) @ '')''),
                 NestError (''Failed to connect after ''
                         @ numberToString (int maxRetries) @ '' attempts'')],
          clock := clock w\<rparr>"
          using False c Inl nr w1 by (subst connectWithRetry.simps) (simp add: nestLog_def Let_def)
        with ch1 show ?thesis by blast
      qed
    qed
  qed
qed

lemma connectWithRetry_frame:
  "ledger (connectWithRetry env rc w) = ledger w"
  "channel_publishes (connectWithRetry env rc w) = channel_publishes w"
  "publish_calls (connectWithRetry env rc w) = publish_calls w"
  "acks (connectWithRetry env rc w) = acks w"
  "channel w \<Longrightarrow> channel (connectWithRetry env rc w)"
proof -
  from connectWithRetry_shape[of env rc w]
  obtain cl c ch ic lg ck where
    s: "connectWithRetry env rc w =
       w\<lparr>conn_log := cl, connection := c, channel := ch, isConnecting := ic, logs := lg, clock := ck\<rparr>"
    and ch: "channel w \<longrightarrow> ch" by blast
  show "ledger (connectWithRetry env rc w) = ledger w"
    "channel_publishes (connectWithRetry env rc w) = channel_publishes w"
    "publish_calls (connectWithRetry env rc w) = publish_calls w"
    "acks (connectWithRetry env rc w) = acks w"
    "channel w \<Longrightarrow> channel (connectWithRetry env rc w)"
    using ch unfolding s by simp_all
qed

lemma handleReconnect_frame:
  "ledger (handleReconnect env w) = ledger w"
  "channel_publishes (handleReconnect env w) = channel_publishes w"
  "publish_calls (handleReconnect env w) = publish_calls w"
  "acks (handleReconnect env w) = acks w"
  "channel w \<Longrightarrow> channel (handleReconnect env w)"
  by (simp_all add: handleReconnect_def connectWithRetry_frame cleanup_def)





lemma channelPublish_snd:
  "snd (channelPublish env x k c corr w) =
     w\<lparr>channel_publishes := channel_publishes w @
         [\<lparr>exchange = x, routingKey = k, content = c, correlationId = corr\<rparr>]\<rparr>"
  by (simp add: channelPublish_def Let_def split: option.splits)


lemma publishTry_frame:
  "ledger (snd (publishTry env x k c w)) = ledger w"
  "publish_calls (snd (publishTry env x k c w)) = publish_calls w"
  "acks (snd (publishTry env x k c w)) = acks w"
  by (simp_all add: publishTry_def channelPublish_def Let_def nestLog_def handleReconnect_frame
      split: option.splits)

lemma publishTry_accepts:
  assumes "publish_script env (length (channel_publishes w)) = None"
  shows "fst (publishTry env x k c w) = Inr ()"
    and "channel_publishes (snd (publishTry env x k c w)) = channel_publishes w @
           [\<lparr>exchange = x, routingKey = k, content = c, correlationId = None\<rparr>]"
  using assms by (simp_all add: publishTry_def channelPublish_def nestLog_def)

lemma publish_frame:
  "ledger (snd (publish env x k c w)) = ledger w"
  "publish_calls (snd (publish env x k c w)) = publish_calls w @
     [\<lparr>exchange = x, routingKey = k, content = c, correlationId = None\<rparr>]"
  "acks (snd (publish env x k c w)) = acks w"
  by (simp_all add: publish_def Let_def publishTry_frame connectWithRetry_frame nestLog_def)

section \<open>Stock check\<close>

text \<open>
  Claim C3. For every product code and requested quantity, \<^verbatim>\<open>checkStock\<close> returns a
  value (it never raises) and leaves the state as it was, the log apart. When no document has
  the code the answer is \<open>available = False\<close>, \<open>currentStock = 0\<close> and the message
  "Item not found in inventory". When the item is stored with quantity \<open>S\<close> the answer is
  \<open>available = (S \<ge> q)\<close>, \<open>currentStock = S\<close> and the message "Stock available" or
  "Insufficient stock. Requested: q, Available: S".
\<close>

theorem checkStock_spec:
  "(\<exists>r. fst (checkStock code qty w) = Inr r)
   \<and> (snd (checkStock code qty w))\<lparr>logs := logs w\<rparr> = w
   \<and> (code \<notin> productCode ` set (ledger w) \<longrightarrow>
        fst (checkStock code qty w) =
          Inr \<lparr>available = False, message = ''Item not found in inventory'', currentStock = 0\<rparr>)
   \<and> (\<forall>i d. findItemById code w = Some (i, d) \<longrightarrow>
        fst (checkStock code qty w) =
          Inr \<lparr>available = (quantity d \<ge> qty),
               message = (if quantity d \<ge> qty then ''Stock available''
                          else ''Insufficient stock. Requested: '' @ numberToString qty
                               @ '', Available: '' @ numberToString (quantity d)),
               currentStock = quantity d\<rparr>)"
proof (cases "findItemById code w")
  case None
  then show ?thesis
    by (simp add: checkStock_def esLog_def)
next
  case (Some a)
  then have "code \<in> productCode ` set (ledger w)"
    using findItemById_None[of code w] by auto
  with Some show ?thesis
    by (cases a) (simp add: checkStock_def Let_def)
qed

theorem checkStock_spec_witness:
  "findItemById ''B'' shop = Some (1, itemB)
   \<and> fst (checkStock ''B'' 20 shop) =
       Inr \<lparr>available = False, message = ''Insufficient stock. Requested: 20, Available: 10'',
            currentStock = 10\<rparr>
   \<and> fst (checkStock ''A'' 5 shop) =
       Inr \<lparr>available = True, message = ''Stock available'', currentStock = 10\<rparr>
   \<and> ''Z'' \<notin> productCode ` set (ledger shop)
   \<and> fst (checkStock ''Z'' 1 shop) =
       Inr \<lparr>available = False, message = ''Item not found in inventory'', currentStock = 0\<rparr>
   \<and> ledger (snd (checkStock ''Z'' 1 shop)) = ledger shop"
proof -
  have b: "findItemById ''B'' shop = Some (1, itemB)"
    by (simp add: findItemById_def findOne_def shop_def itemA_def itemB_def)
  have a: "findItemById ''A'' shop = Some (0, itemA)"
    by (simp add: findItemById_def findOne_def shop_def itemA_def itemB_def)
  have z: "''Z'' \<notin> productCode ` set (ledger shop)"
    by (simp add: shop_def itemA_def itemB_def)
  from checkStock_spec[of "''B''" 20 shop] b
  have rb: "fst (checkStock ''B'' 20 shop) =
       Inr \<lparr>available = False, message = ''Insufficient stock. Requested: 20, Available: 10'',
            currentStock = 10\<rparr>"
    by (simp add: itemB_def numberToString_examples)
  from checkStock_spec[of "''A''" 5 shop] a
  have ra: "fst (checkStock ''A'' 5 shop) =
       Inr \<lparr>available = True, message = ''Stock available'', currentStock = 10\<rparr>"
    by (simp add: itemA_def)
  from checkStock_spec[of "''Z''" 1 shop] z
  have rz: "fst (checkStock ''Z'' 1 shop) =
       Inr \<lparr>available = False, message = ''Item not found in inventory'', currentStock = 0\<rparr>"
    by blast
  from checkStock_spec[of "''Z''" 1 shop]
  have "(snd (checkStock ''Z'' 1 shop))\<lparr>logs := logs shop\<rparr> = shop" by blast
  then have "ledger ((snd (checkStock ''Z'' 1 shop))\<lparr>logs := logs shop\<rparr>) = ledger shop"
    by simp
  then have lz: "ledger (snd (checkStock ''Z'' 1 shop)) = ledger shop" by simp
  from b rb ra z rz lz show ?thesis by blast
qed

section \<open>Properties of the orchestrator's building blocks\<close>

lemma toLowerCase_eventTypeValue:
  "toLowerCase ''STOCK_ADDED'' = ''stock_added''"
  "toLowerCase ''STOCK_REDUCED'' = ''stock_reduced''"
  "toLowerCase ''STOCK_UPDATED'' = ''stock_updated''"
  by code_simp+

lemma publish_accepts:
  assumes "channel w" and "publish_script env (length (channel_publishes w)) = None"
  shows "fst (publish env x k c w) = Inr ()"
    and "channel_publishes (snd (publish env x k c w)) = channel_publishes w @
           [\<lparr>exchange = x, routingKey = k, content = c, correlationId = None\<rparr>]"
  using assms by (simp_all add: publish_def Let_def publishTry_accepts)

lemma publishStockUpdateEvent_via_publish:
  "fst (publishStockUpdateEvent env ev w) =
     fst (publish env INVENTORY
            (''inventory.stock.'' @ toLowerCase (eventTypeValue (eventType ev))) (EventPayload ev) w)"
  "\<exists>lg. snd (publishStockUpdateEvent env ev w) =
     (snd (publish env INVENTORY
            (''inventory.stock.'' @ toLowerCase (eventTypeValue (eventType ev))) (EventPayload ev) w))
       \<lparr>logs := lg\<rparr>"
proof -
  define k where "k = ''inventory.stock.'' @ toLowerCase (eventTypeValue (eventType ev))"
  obtain r w1 where p: "publish env INVENTORY k (EventPayload ev) w = (r, w1)"
    by (cases "publish env INVENTORY k (EventPayload ev) w")
  have a: "fst (publishStockUpdateEvent env ev w) = r"
    unfolding publishStockUpdateEvent_def k_def[symmetric] p
    by (cases r) simp_all
  have b: "\<exists>lg. snd (publishStockUpdateEvent env ev w) = w1\<lparr>logs := lg\<rparr>"
    unfolding publishStockUpdateEvent_def k_def[symmetric] p
    by (cases r) (simp_all add: esLog_def esError_def, (rule exI, rule refl)+)
  show "fst (publishStockUpdateEvent env ev w) =
     fst (publish env INVENTORY
            (''inventory.stock.'' @ toLowerCase (eventTypeValue (eventType ev))) (EventPayload ev) w)"
    using a p unfolding k_def[symmetric] by simp
  show "\<exists>lg. snd (publishStockUpdateEvent env ev w) =
     (snd (publish env INVENTORY
            (''inventory.stock.'' @ toLowerCase (eventTypeValue (eventType ev))) (EventPayload ev) w))
       \<lparr>logs := lg\<rparr>"
    using b p unfolding k_def[symmetric] by simp
qed

lemma publishStockUpdateEvent_frame:
  "ledger (snd (publishStockUpdateEvent env ev w)) = ledger w"
  "publish_calls (snd (publishStockUpdateEvent env ev w)) = publish_calls w @
     [\<lparr>exchange = INVENTORY,
       routingKey = ''inventory.stock.'' @ toLowerCase (eventTypeValue (eventType ev)),
       content = EventPayload ev, correlationId = None\<rparr>]"
  "acks (snd (publishStockUpdateEvent env ev w)) = acks w"
proof -
  from publishStockUpdateEvent_via_publish(2)[of env ev w]
  obtain lg where s: "snd (publishStockUpdateEvent env ev w) =
     (snd (publish env INVENTORY
            (''inventory.stock.'' @ toLowerCase (eventTypeValue (eventType ev))) (EventPayload ev) w))
       \<lparr>logs := lg\<rparr>" by blast
  show "ledger (snd (publishStockUpdateEvent env ev w)) = ledger w"
    unfolding s by (simp add: publish_frame)
  show "publish_calls (snd (publishStockUpdateEvent env ev w)) = publish_calls w @
     [\<lparr>exchange = INVENTORY,
       routingKey = ''inventory.stock.'' @ toLowerCase (eventTypeValue (eventType ev)),
       content = EventPayload ev, correlationId = None\<rparr>]"
    unfolding s by (simp add: publish_frame)
  show "acks (snd (publishStockUpdateEvent env ev w)) = acks w"
    unfolding s by (simp add: publish_frame)
qed

lemma publishStockUpdateEvent_accepts:
  assumes "channel w" and "publish_script env (length (channel_publishes w)) = None"
  shows "fst (publishStockUpdateEvent env ev w) = Inr ()"
    and "channel_publishes (snd (publishStockUpdateEvent env ev w)) = channel_publishes w @
     [\<lparr>exchange = INVENTORY,
       routingKey = ''inventory.stock.'' @ toLowerCase (eventTypeValue (eventType ev)),
       content = EventPayload ev, correlationId = None\<rparr>]"
proof -
  from publishStockUpdateEvent_via_publish(2)[of env ev w]
  obtain lg where s: "snd (publishStockUpdateEvent env ev w) =
     (snd (publish env INVENTORY
            (''inventory.stock.'' @ toLowerCase (eventTypeValue (eventType ev))) (EventPayload ev) w))
       \<lparr>logs := lg\<rparr>" by blast
  show "fst (publishStockUpdateEvent env ev w) = Inr ()"
    unfolding publishStockUpdateEvent_via_publish(1) by (rule publish_accepts(1)[OF assms])
  show "channel_publishes (snd (publishStockUpdateEvent env ev w)) = channel_publishes w @
     [\<lparr>exchange = INVENTORY,
       routingKey = ''inventory.stock.'' @ toLowerCase (eventTypeValue (eventType ev)),
       content = EventPayload ev, correlationId = None\<rparr>]"
    unfolding s using publish_accepts(2)[OF assms, of INVENTORY
        "''inventory.stock.'' @ toLowerCase (eventTypeValue (eventType ev))" "EventPayload ev"]
    by simp
qed

lemma findItemById_Some:
  "findItemById code w = Some (i, d) \<Longrightarrow>
     i < length (ledger w) \<and> ledger w ! i = d \<and> productCode d = code"
  using findOne_Some[of "\<lambda>d. productCode d = code" "ledger w" i d] by (simp add: findItemById_def)

lemma getItem_found:
  "findItemById code w = Some (i, d) \<Longrightarrow>
     getItem code w = (Inr (i, d), esLog (''Fetched stock for item '' @ name d @ '': '' @ productCode d)
                                     ''InventoryService'' w)"
  by (simp add: getItem_def)


lemma shop_lookup:
  "findItemById ''A'' shop = Some (0, itemA)"
  "findItemById ''B'' shop = Some (1, itemB)"
  by (simp_all add: findItemById_def findOne_def shop_def itemA_def itemB_def)

lemma shop_accepts:
  "channel shop \<and> publish_script healthy (length (channel_publishes shop)) = None"
  by (simp add: shop_def healthy_def)


section \<open>Stock deduction\<close>

text \<open>
  What \<^verbatim>\<open>deductStock\<close> does on sufficient stock, in the arithmetic of the source: the
  stored quantity becomes the double nearest to \<open>S - q\<close>, and the event's previous quantity is
  the double nearest to that plus \<open>q\<close>.
\<close>

lemma deductStock_sufficient_effects:
  assumes found: "findItemById code w = Some (i, d)" and enough: "qty \<le> quantity d"
  shows "ledger (snd (deductStock env code qty w)) =
           (ledger w)[i := d\<lparr>quantity := numberSub (quantity d) qty\<rparr>]
    \<and> findItemById code (snd (deductStock env code qty w)) =
           Some (i, d\<lparr>quantity := numberSub (quantity d) qty\<rparr>)
    \<and> publish_calls (snd (deductStock env code qty w)) = publish_calls w @
         [\<lparr>exchange = INVENTORY, routingKey = ''inventory.stock.stock_reduced'',
           content = EventPayload
             \<lparr>eventType = STOCK_REDUCED, eventProductCode = code,
              previousQuantity = numberAdd (numberSub (quantity d) qty) qty,
              newQuantity = numberSub (quantity d) qty,
              timestamp = clock w, productName = Some (name d)\<rparr>,
           correlationId = None\<rparr>]
    \<and> (channel w \<and> publish_script env (length (channel_publishes w)) = None \<longrightarrow>
         fst (deductStock env code qty w) = Inr ()
         \<and> channel_publishes (snd (deductStock env code qty w)) = channel_publishes w @
             [\<lparr>exchange = INVENTORY, routingKey = ''inventory.stock.stock_reduced'',
               content = EventPayload
                 \<lparr>eventType = STOCK_REDUCED, eventProductCode = code,
                  previousQuantity = numberAdd (numberSub (quantity d) qty) qty,
                  newQuantity = numberSub (quantity d) qty,
                  timestamp = clock w, productName = Some (name d)\<rparr>,
               correlationId = None\<rparr>])"
proof -
  define d' where "d' = d\<lparr>quantity := numberSub (quantity d) qty\<rparr>"
  define ev where "ev = \<lparr>eventType = STOCK_REDUCED, eventProductCode = code,
              previousQuantity = numberAdd (numberSub (quantity d) qty) qty,
              newQuantity = numberSub (quantity d) qty,
              timestamp = clock w, productName = Some (name d)\<rparr>"
  define w2 where "w2 = save (i, d')
     (esLog (''Fetched stock for item '' @ name d @ '': '' @ productCode d) ''InventoryService'' w)"
  have run: "deductStock env code qty w = publishStockUpdateEvent env ev w2"
    unfolding w2_def ev_def d'_def using enough
    by (simp add: deductStock_def getItem_found[OF found] Let_def save_def esLog_def)
  have l2: "ledger w2 = (ledger w)[i := d']"
    and p2: "publish_calls w2 = publish_calls w" "channel_publishes w2 = channel_publishes w"
      "channel w2 = channel w"
    unfolding w2_def by (simp_all add: save_def esLog_def)
  from findItemById_Some[OF found] have pc: "productCode d' = code" by (simp add: d'_def)
  have et: "eventType ev = STOCK_REDUCED" by (simp add: ev_def)
  have led: "ledger (snd (deductStock env code qty w)) = (ledger w)[i := d']"
    by (simp add: run publishStockUpdateEvent_frame l2)
  have look: "findItemById code (snd (deductStock env code qty w)) = Some (i, d')"
    using findOne_update_same[of "\<lambda>d. productCode d = code" "ledger w" i d d'] found pc
    by (simp add: findItemById_def led)
  have calls: "publish_calls (snd (deductStock env code qty w)) = publish_calls w @
         [\<lparr>exchange = INVENTORY, routingKey = ''inventory.stock.stock_reduced'',
           content = EventPayload ev, correlationId = None\<rparr>]"
    by (simp add: run publishStockUpdateEvent_frame p2 et toLowerCase_eventTypeValue)
  have acc: "channel w \<and> publish_script env (length (channel_publishes w)) = None \<longrightarrow>
         fst (deductStock env code qty w) = Inr ()
         \<and> channel_publishes (snd (deductStock env code qty w)) = channel_publishes w @
             [\<lparr>exchange = INVENTORY, routingKey = ''inventory.stock.stock_reduced'',
               content = EventPayload ev, correlationId = None\<rparr>]"
    using publishStockUpdateEvent_accepts[of w2 env ev]
    by (simp add: run p2 et toLowerCase_eventTypeValue)
  from led look calls acc show ?thesis
    unfolding d'_def ev_def by blast
qed

lemma depot_lookup: "findItemById ''C'' depot = Some (0, crate)"
  by (simp add: findItemById_def findOne_def depot_def crate_def)

text \<open>
  Claim C1, as stated for every stored quantity \<open>S\<close> and every \<open>q \<le> S\<close>, fails: the
  subtraction and the addition are those of doubles. With \<open>S = 2^53 + 2\<close> stored and \<open>q = 1\<close>,
  \<open>S - q = 2^53 + 1\<close> is no double; the quantity stored is \<open>2^53\<close>, and the event carries
  \<open>previousQuantity = 2^53\<close>, which is not \<open>S\<close>.
\<close>

theorem deductStock_sufficient_counterexample:
  "findItemById ''C'' depot = Some (0, crate)
   \<and> quantity crate = 9007199254740994
   \<and> (1::int) \<le> quantity crate
   \<and> ledger (snd (deductStock healthy ''C'' 1 depot)) = [crate\<lparr>quantity := 9007199254740992\<rparr>]
   \<and> (9007199254740992::int) \<noteq> 9007199254740994 - 1
   \<and> map content (publish_calls (snd (deductStock healthy ''C'' 1 depot))) =
        [EventPayload
           \<lparr>eventType = STOCK_REDUCED, eventProductCode = ''C'',
            previousQuantity = 9007199254740992, newQuantity = 9007199254740992,
            timestamp = 1000, productName = Some ''Grain''\<rparr>]
   \<and> (9007199254740992::int) \<noteq> 9007199254740994"
proof -
  have q: "quantity crate = 9007199254740994" by (simp add: crate_def)
  have e: "(1::int) \<le> quantity crate" by (simp add: crate_def)
  have sub: "numberSub (quantity crate) 1 = 9007199254740992"
    by (simp add: numberSub_def q roundToDouble_beyond)
  have add: "numberAdd 9007199254740992 1 = 9007199254740992"
    by (simp add: numberAdd_def roundToDouble_beyond)
  note t = deductStock_sufficient_effects[OF depot_lookup e, of healthy]
  from t have l: "ledger (snd (deductStock healthy ''C'' 1 depot)) =
      [crate\<lparr>quantity := 9007199254740992\<rparr>]"
    unfolding sub by (simp add: depot_def)
  from t have c: "map content (publish_calls (snd (deductStock healthy ''C'' 1 depot))) =
        [EventPayload
           \<lparr>eventType = STOCK_REDUCED, eventProductCode = ''C'',
            previousQuantity = 9007199254740992, newQuantity = 9007199254740992,
            timestamp = 1000, productName = Some ''Grain''\<rparr>]"
    unfolding sub add by (simp add: depot_def crate_def)
  from depot_lookup q e l c show ?thesis by simp
qed

text \<open>
  Claim C1, amended. When the item is stored with an integer quantity \<open>S\<close>, \<open>q \<le> S\<close>, and
  both \<open>S\<close> and \<open>S - q\<close> are at most \<open>2^53\<close> in magnitude,
  \<^verbatim>\<open>deductStock(code, q)\<close> writes \<open>S - q\<close> into the stored document (the ledger
  differs at that document only, and looking the code up again returns it with \<open>S - q\<close>), and
  hands the publisher exactly one event: \<^verbatim>\<open>STOCK_REDUCED\<close> with
  \<open>previousQuantity = S\<close> and \<open>newQuantity = S - q\<close>. When the channel is up and the
  broker accepts the publish, that event is the one message put on the channel and the call
  returns normally.
\<close>

theorem deductStock_sufficient:
  assumes found: "findItemById code w = Some (i, d)" and enough: "qty \<le> quantity d"
    and stored: "\<bar>quantity d\<bar> \<le> 2 ^ 53" and left: "\<bar>quantity d - qty\<bar> \<le> 2 ^ 53"
  shows "ledger (snd (deductStock env code qty w)) = (ledger w)[i := d\<lparr>quantity := quantity d - qty\<rparr>]
    \<and> findItemById code (snd (deductStock env code qty w)) = Some (i, d\<lparr>quantity := quantity d - qty\<rparr>)
    \<and> publish_calls (snd (deductStock env code qty w)) = publish_calls w @
         [\<lparr>exchange = INVENTORY, routingKey = ''inventory.stock.stock_reduced'',
           content = EventPayload
             \<lparr>eventType = STOCK_REDUCED, eventProductCode = code,
              previousQuantity = quantity d, newQuantity = quantity d - qty,
              timestamp = clock w, productName = Some (name d)\<rparr>,
           correlationId = None\<rparr>]
    \<and> (channel w \<and> publish_script env (length (channel_publishes w)) = None \<longrightarrow>
         fst (deductStock env code qty w) = Inr ()
         \<and> channel_publishes (snd (deductStock env code qty w)) = channel_publishes w @
             [\<lparr>exchange = INVENTORY, routingKey = ''inventory.stock.stock_reduced'',
               content = EventPayload
                 \<lparr>eventType = STOCK_REDUCED, eventProductCode = code,
                  previousQuantity = quantity d, newQuantity = quantity d - qty,
                  timestamp = clock w, productName = Some (name d)\<rparr>,
               correlationId = None\<rparr>])"
proof -
  have sub: "numberSub (quantity d) qty = quantity d - qty"
    unfolding numberSub_def by (rule roundToDouble_exact[OF left])
  have add: "numberAdd (quantity d - qty) qty = quantity d"
    unfolding numberAdd_def using roundToDouble_exact[OF stored] by simp
  from deductStock_sufficient_effects[OF found enough, of env]
  show ?thesis unfolding sub add .
qed

theorem deductStock_sufficient_witness:
  "findItemById ''A'' shop = Some (0, itemA) \<and> (4::int) \<le> quantity itemA
   \<and> \<bar>quantity itemA\<bar> \<le> 2 ^ 53 \<and> \<bar>quantity itemA - 4\<bar> \<le> 2 ^ 53
   \<and> ledger (snd (deductStock healthy ''A'' 4 shop)) = [itemA\<lparr>quantity := 6\<rparr>, itemB]
   \<and> fst (deductStock healthy ''A'' 4 shop) = Inr ()
   \<and> channel_publishes (snd (deductStock healthy ''A'' 4 shop)) =
        [\<lparr>exchange = ''inventory.exchange'', routingKey = ''inventory.stock.stock_reduced'',
          content = EventPayload
            \<lparr>eventType = STOCK_REDUCED, eventProductCode = ''A'', previousQuantity = 10,
             newQuantity = 6, timestamp = 1000, productName = Some ''Widget''\<rparr>,
          correlationId = None\<rparr>]"
proof -
  have e: "(4::int) \<le> quantity itemA" by (simp add: itemA_def)
  have s1: "\<bar>quantity itemA\<bar> \<le> 2 ^ 53" and s2: "\<bar>quantity itemA - 4\<bar> \<le> 2 ^ 53"
    by (simp_all add: itemA_def)
  note t = deductStock_sufficient[OF shop_lookup(1) e s1 s2, of healthy]
  from t have l: "ledger (snd (deductStock healthy ''A'' 4 shop)) = [itemA\<lparr>quantity := 6\<rparr>, itemB]"
    by (simp add: shop_def itemA_def)
  from t shop_accepts have r: "fst (deductStock healthy ''A'' 4 shop) = Inr ()" by blast
  from t shop_accepts
  have "channel_publishes (snd (deductStock healthy ''A'' 4 shop)) = channel_publishes shop @
             [\<lparr>exchange = INVENTORY, routingKey = ''inventory.stock.stock_reduced'',
               content = EventPayload
                 \<lparr>eventType = STOCK_REDUCED, eventProductCode = ''A'',
                  previousQuantity = quantity itemA, newQuantity = quantity itemA - 4,
                  timestamp = clock shop, productName = Some (name itemA)\<rparr>,
               correlationId = None\<rparr>]" by blast
  then have c: "channel_publishes (snd (deductStock healthy ''A'' 4 shop)) =
        [\<lparr>exchange = ''inventory.exchange'', routingKey = ''inventory.stock.stock_reduced'',
          content = EventPayload
            \<lparr>eventType = STOCK_REDUCED, eventProductCode = ''A'', previousQuantity = 10,
             newQuantity = 6, timestamp = 1000, productName = Some ''Widget''\<rparr>,
          correlationId = None\<rparr>]"
    by (simp add: shop_def itemA_def INVENTORY_def)
  from shop_lookup(1) e s1 s2 l r c show ?thesis by blast
qed

text \<open>
  Claim C2. When the item is stored with quantity \<open>S\<close> and \<open>q > S\<close>,
  \<^verbatim>\<open>deductStock(code, q)\<close> raises an error whose message carries the item's name, the
  requested quantity and the available quantity; the state is as before, the log apart: the
  ledger is unchanged and nothing is handed to the publisher or put on the channel.
\<close>

theorem deductStock_insufficient:
  assumes found: "findItemById code w = Some (i, d)" and short: "quantity d < qty"
  shows "fst (deductStock env code qty w) =
           Inl (Error (''Insufficient stock for '' @ name d @ ''. Requested: '' @ numberToString qty
                       @ '', Available: '' @ numberToString (quantity d)))
    \<and> (snd (deductStock env code qty w))\<lparr>logs := logs w\<rparr> = w
    \<and> ledger (snd (deductStock env code qty w)) = ledger w
    \<and> publish_calls (snd (deductStock env code qty w)) = publish_calls w
    \<and> channel_publishes (snd (deductStock env code qty w)) = channel_publishes w"
  using short by (simp add: deductStock_def getItem_found[OF found] esLog_def)

theorem deductStock_insufficient_witness:
  "findItemById ''A'' shop = Some (0, itemA) \<and> quantity itemA < 15
   \<and> fst (deductStock healthy ''A'' 15 shop) =
       Inl (Error ''Insufficient stock for Widget. Requested: 15, Available: 10'')
   \<and> ledger (snd (deductStock healthy ''A'' 15 shop)) = [itemA, itemB]
   \<and> channel_publishes (snd (deductStock healthy ''A'' 15 shop)) = []"
proof -
  have s: "quantity itemA < 15" by (simp add: itemA_def)
  note t = deductStock_insufficient[OF shop_lookup(1) s, of healthy]
  from t have r: "fst (deductStock healthy ''A'' 15 shop) =
       Inl (Error ''Insufficient stock for Widget. Requested: 15, Available: 10'')"
    by (simp add: itemA_def numberToString_examples)
  from t have l: "ledger (snd (deductStock healthy ''A'' 15 shop)) = [itemA, itemB]"
    by (simp add: shop_def)
  from t have c: "channel_publishes (snd (deductStock healthy ''A'' 15 shop)) = []"
    by (simp add: shop_def)
  from shop_lookup(1) s r l c show ?thesis by blast
qed

section \<open>Stock update\<close>

lemma repoUpdateStock_found:
  "findItemById code w = Some (i, d) \<Longrightarrow>
     repoUpdateStock code qty w =
       (Some (i, d\<lparr>quantity := qty\<rparr>), w\<lparr>ledger := (ledger w)[i := d\<lparr>quantity := qty\<rparr>]\<rparr>)"
  by (simp add: repoUpdateStock_def findItemById_def)

lemma updateStock_via_event:
  fixes qty :: int and env :: broker
  assumes found: "findItemById code w = Some (i, d)"
  defines "ev \<equiv> \<lparr>eventType = (if qty > quantity d then STOCK_ADDED else STOCK_REDUCED),
                   eventProductCode = code, previousQuantity = quantity d, newQuantity = qty,
                   timestamp = clock w, productName = Some (name d)\<rparr>"
    and "w1 \<equiv> w\<lparr>ledger := (ledger w)[i := d\<lparr>quantity := qty\<rparr>]\<rparr>"
  shows "\<exists>lg. snd (updateStock env code qty w) = (snd (publishStockUpdateEvent env ev w1))\<lparr>logs := lg\<rparr>"
    and "fst (publishStockUpdateEvent env ev w1) = Inr () \<Longrightarrow>
           fst (updateStock env code qty w) = Inr (Some (i, d\<lparr>quantity := qty\<rparr>))"
proof -
  obtain r w2 where p: "publishStockUpdateEvent env ev w1 = (r, w2)"
    by (cases "publishStockUpdateEvent env ev w1")
  have run: "updateStock env code qty w =
      (case (r, w2) of
         (Inl e, w2) \<Rightarrow> (Inl e, w2)
       | (Inr u, w2) \<Rightarrow>
           (Inr (Some (i, d\<lparr>quantity := qty\<rparr>)),
            esLog (''Stock updated for item '' @ name d @ ''. New stock: '' @ numberToString qty)
              ''InventoryService'' w2))"
    unfolding p[symmetric] ev_def w1_def
    by (simp add: updateStock_def found repoUpdateStock_found[OF found] Let_def)
  have "\<exists>lg. snd (updateStock env code qty w) = w2\<lparr>logs := lg\<rparr>"
  proof (cases r)
    case (Inl e)
    have "snd (updateStock env code qty w) = w2\<lparr>logs := logs w2\<rparr>"
      unfolding run using Inl by simp
    then show ?thesis by blast
  next
    case (Inr u)
    have "snd (updateStock env code qty w) = w2\<lparr>logs := logs w2 @
        [EsLog (''Stock updated for item '' @ name d @ ''. New stock: '' @ numberToString qty)
           ''InventoryService'']\<rparr>"
      unfolding run using Inr by (simp add: esLog_def)
    then show ?thesis by blast
  qed
  then show "\<exists>lg. snd (updateStock env code qty w) =
      (snd (publishStockUpdateEvent env ev w1))\<lparr>logs := lg\<rparr>"
    by (simp add: p)
  show "fst (publishStockUpdateEvent env ev w1) = Inr () \<Longrightarrow>
           fst (updateStock env code qty w) = Inr (Some (i, d\<lparr>quantity := qty\<rparr>))"
    unfolding run using p by simp
qed


text \<open>
  Claim C5. When the item is stored with quantity \<open>P\<close>, \<^verbatim>\<open>updateStock(code, newQty)\<close>
  writes \<open>newQty\<close> into the stored document and hands the publisher one event whose type is
  \<^verbatim>\<open>STOCK_ADDED\<close> when \<open>newQty > P\<close> and \<^verbatim>\<open>STOCK_REDUCED\<close> otherwise, so also
  when \<open>newQty = P\<close>. When the channel is up and the broker accepts the publish, that event is
  the one message put on the channel and the updated document is returned.
\<close>

theorem updateStock_event_type:
  assumes found: "findItemById code w = Some (i, d)"
  shows "ledger (snd (updateStock env code qty w)) = (ledger w)[i := d\<lparr>quantity := qty\<rparr>]
    \<and> findItemById code (snd (updateStock env code qty w)) = Some (i, d\<lparr>quantity := qty\<rparr>)
    \<and> publish_calls (snd (updateStock env code qty w)) = publish_calls w @
         [\<lparr>exchange = INVENTORY,
           routingKey = ''inventory.stock.'' @ toLowerCase (eventTypeValue
                          (if qty > quantity d then STOCK_ADDED else STOCK_REDUCED)),
           content = EventPayload
             \<lparr>eventType = (if qty > quantity d then STOCK_ADDED else STOCK_REDUCED),
              eventProductCode = code, previousQuantity = quantity d, newQuantity = qty,
              timestamp = clock w, productName = Some (name d)\<rparr>,
           correlationId = None\<rparr>]
    \<and> (channel w \<and> publish_script env (length (channel_publishes w)) = None \<longrightarrow>
         fst (updateStock env code qty w) = Inr (Some (i, d\<lparr>quantity := qty\<rparr>))
         \<and> channel_publishes (snd (updateStock env code qty w)) = channel_publishes w @
             [\<lparr>exchange = INVENTORY,
               routingKey = ''inventory.stock.'' @ toLowerCase (eventTypeValue
                              (if qty > quantity d then STOCK_ADDED else STOCK_REDUCED)),
               content = EventPayload
                 \<lparr>eventType = (if qty > quantity d then STOCK_ADDED else STOCK_REDUCED),
                  eventProductCode = code, previousQuantity = quantity d, newQuantity = qty,
                  timestamp = clock w, productName = Some (name d)\<rparr>,
               correlationId = None\<rparr>])"
proof -
  define d' where "d' = d\<lparr>quantity := qty\<rparr>"
  define ev where "ev = \<lparr>eventType = (if qty > quantity d then STOCK_ADDED else STOCK_REDUCED),
                   eventProductCode = code, previousQuantity = quantity d, newQuantity = qty,
                   timestamp = clock w, productName = Some (name d)\<rparr>"
  define w1 where "w1 = w\<lparr>ledger := (ledger w)[i := d\<lparr>quantity := qty\<rparr>]\<rparr>"
  define k where "k = ''inventory.stock.'' @ toLowerCase (eventTypeValue
                          (if qty > quantity d then STOCK_ADDED else STOCK_REDUCED))"
  from updateStock_via_event(1)[OF found, of env qty]
  obtain lg where s: "snd (updateStock env code qty w) = (snd (publishStockUpdateEvent env ev w1))\<lparr>logs := lg\<rparr>"
    unfolding ev_def w1_def by blast
  have ok: "fst (publishStockUpdateEvent env ev w1) = Inr () \<Longrightarrow>
           fst (updateStock env code qty w) = Inr (Some (i, d'))"
    using updateStock_via_event(2)[OF found, of env qty] unfolding ev_def w1_def d'_def by blast
  have f1: "ledger w1 = (ledger w)[i := d']" "publish_calls w1 = publish_calls w"
    "channel_publishes w1 = channel_publishes w" "channel w1 = channel w"
    by (simp_all add: w1_def d'_def)
  have ke: "''inventory.stock.'' @ toLowerCase (eventTypeValue (eventType ev)) = k"
    by (simp add: ev_def k_def)
  from findItemById_Some[OF found] have pc: "productCode d' = code" by (simp add: d'_def)
  have led: "ledger (snd (updateStock env code qty w)) = (ledger w)[i := d']"
    unfolding s by (simp add: publishStockUpdateEvent_frame f1)
  have look: "findItemById code (snd (updateStock env code qty w)) = Some (i, d')"
    using findOne_update_same[of "\<lambda>d. productCode d = code" "ledger w" i d d'] found pc
    by (simp add: findItemById_def led)
  have calls: "publish_calls (snd (updateStock env code qty w)) = publish_calls w @
         [\<lparr>exchange = INVENTORY, routingKey = k, content = EventPayload ev, correlationId = None\<rparr>]"
    unfolding s using publishStockUpdateEvent_frame(2)[of env ev w1] unfolding ke
    by (simp add: f1)
  have acc: "channel w \<and> publish_script env (length (channel_publishes w)) = None \<longrightarrow>
         fst (updateStock env code qty w) = Inr (Some (i, d'))
         \<and> channel_publishes (snd (updateStock env code qty w)) = channel_publishes w @
             [\<lparr>exchange = INVENTORY, routingKey = k, content = EventPayload ev, correlationId = None\<rparr>]"
  proof
    assume a: "channel w \<and> publish_script env (length (channel_publishes w)) = None"
    then have a1: "channel w1" and a2: "publish_script env (length (channel_publishes w1)) = None"
      by (simp_all add: f1)
    from publishStockUpdateEvent_accepts[OF a1 a2, of ev] ok
    show "fst (updateStock env code qty w) = Inr (Some (i, d'))
         \<and> channel_publishes (snd (updateStock env code qty w)) = channel_publishes w @
             [\<lparr>exchange = INVENTORY, routingKey = k, content = EventPayload ev, correlationId = None\<rparr>]"
      unfolding s ke by (simp add: f1)
  qed
  from led look calls acc show ?thesis
    unfolding d'_def ev_def k_def by blast
qed

theorem updateStock_event_type_witness:
  "findItemById ''A'' shop = Some (0, itemA)
   \<and> ledger (snd (updateStock healthy ''A'' 10 shop)) = [itemA, itemB]
   \<and> channel_publishes (snd (updateStock healthy ''A'' 10 shop)) =
        [\<lparr>exchange = ''inventory.exchange'', routingKey = ''inventory.stock.stock_reduced'',
          content = EventPayload
            \<lparr>eventType = STOCK_REDUCED, eventProductCode = ''A'', previousQuantity = 10,
             newQuantity = 10, timestamp = 1000, productName = Some ''Widget''\<rparr>,
          correlationId = None\<rparr>]
   \<and> ledger (snd (updateStock healthy ''A'' 15 shop)) = [itemA\<lparr>quantity := 15\<rparr>, itemB]
   \<and> fst (updateStock healthy ''A'' 15 shop) = Inr (Some (0, itemA\<lparr>quantity := 15\<rparr>))
   \<and> channel_publishes (snd (updateStock healthy ''A'' 15 shop)) =
        [\<lparr>exchange = ''inventory.exchange'', routingKey = ''inventory.stock.stock_added'',
          content = EventPayload
            \<lparr>eventType = STOCK_ADDED, eventProductCode = ''A'', previousQuantity = 10,
             newQuantity = 15, timestamp = 1000, productName = Some ''Widget''\<rparr>,
          correlationId = None\<rparr>]"
proof -
  note t10 = updateStock_event_type[OF shop_lookup(1), of healthy 10]
  note t15 = updateStock_event_type[OF shop_lookup(1), of healthy 15]
  from t10 have l10: "ledger (snd (updateStock healthy ''A'' 10 shop)) = [itemA, itemB]"
    by (simp add: shop_def itemA_def)
  from t10 shop_accepts
  have c10: "channel_publishes (snd (updateStock healthy ''A'' 10 shop)) =
        [\<lparr>exchange = ''inventory.exchange'', routingKey = ''inventory.stock.stock_reduced'',
          content = EventPayload
            \<lparr>eventType = STOCK_REDUCED, eventProductCode = ''A'', previousQuantity = 10,
             newQuantity = 10, timestamp = 1000, productName = Some ''Widget''\<rparr>,
          correlationId = None\<rparr>]"
    by (simp add: shop_def itemA_def INVENTORY_def toLowerCase_eventTypeValue)
  from t15 have l15: "ledger (snd (updateStock healthy ''A'' 15 shop)) = [itemA\<lparr>quantity := 15\<rparr>, itemB]"
    by (simp add: shop_def itemA_def)
  from t15 shop_accepts
  have r15: "fst (updateStock healthy ''A'' 15 shop) = Inr (Some (0, itemA\<lparr>quantity := 15\<rparr>))"
    by blast
  from t15 shop_accepts
  have c15: "channel_publishes (snd (updateStock healthy ''A'' 15 shop)) =
        [\<lparr>exchange = ''inventory.exchange'', routingKey = ''inventory.stock.stock_added'',
          content = EventPayload
            \<lparr>eventType = STOCK_ADDED, eventProductCode = ''A'', previousQuantity = 10,
             newQuantity = 15, timestamp = 1000, productName = Some ''Widget''\<rparr>,
          correlationId = None\<rparr>]"
    by (simp add: shop_def itemA_def INVENTORY_def toLowerCase_eventTypeValue)
  from shop_lookup(1) l10 c10 l15 r15 c15 show ?thesis by blast
qed

section \<open>What a stock mutation leaves alone\<close>

lemma updateStock_ledger:
  assumes found: "findItemById code w = Some (i, d)"
  shows "ledger (snd (updateStock env code qty w)) = (ledger w)[i := d\<lparr>quantity := qty\<rparr>]"
proof -
  from updateStock_via_event(1)[OF found, of env qty]
  obtain lg ev where "snd (updateStock env code qty w) =
      (snd (publishStockUpdateEvent env ev (w\<lparr>ledger := (ledger w)[i := d\<lparr>quantity := qty\<rparr>]\<rparr>)))
        \<lparr>logs := lg\<rparr>" by blast
  then show ?thesis by (simp add: publishStockUpdateEvent_frame)
qed

lemma deductStock_ledger:
  assumes found: "findItemById code w = Some (i, d)"
  shows "ledger (snd (deductStock env code qty w)) =
           (if quantity d < qty then ledger w
            else (ledger w)[i := d\<lparr>quantity := numberSub (quantity d) qty\<rparr>])"
  by (simp add: deductStock_def getItem_found[OF found] Let_def publishStockUpdateEvent_frame
      save_def esLog_def)

lemma quantity_write_frame:
  assumes found: "findItemById code w = Some (i, d)"
    and l': "l' = ledger w \<or> l' = (ledger w)[i := d\<lparr>quantity := q'\<rparr>]"
  shows "length l' = length (ledger w)
     \<and> (\<forall>j < length (ledger w). j \<noteq> i \<longrightarrow> l' ! j = ledger w ! j)
     \<and> productCode (l' ! i) = productCode d \<and> name (l' ! i) = name d
     \<and> description (l' ! i) = description d \<and> price (l' ! i) = price d
     \<and> (\<forall>c. c \<noteq> code \<longrightarrow> findOne (\<lambda>x. productCode x = c) l' = findOne (\<lambda>x. productCode x = c) (ledger w))"
proof -
  from findItemById_Some[OF found]
  have i: "i < length (ledger w)" and at: "ledger w ! i = d" and pc: "productCode d = code"
    by simp_all
  from l' show ?thesis
  proof
    assume "l' = ledger w"
    with at show ?thesis by simp
  next
    assume u: "l' = (ledger w)[i := d\<lparr>quantity := q'\<rparr>]"
    have other: "\<forall>c. c \<noteq> code \<longrightarrow>
        findOne (\<lambda>x. productCode x = c) l' = findOne (\<lambda>x. productCode x = c) (ledger w)"
    proof (intro allI impI)
      fix c assume "c \<noteq> code"
      with pc at have "\<not> productCode (ledger w ! i) = c" "\<not> productCode (d\<lparr>quantity := q'\<rparr>) = c"
        by simp_all
      with i show "findOne (\<lambda>x. productCode x = c) l' = findOne (\<lambda>x. productCode x = c) (ledger w)"
        unfolding u by (intro findOne_update_other) simp_all
    qed
    from i other show ?thesis unfolding u by simp
  qed
qed


text \<open>
  Claim C10. When the item is present, the ledger after \<^verbatim>\<open>updateStock\<close> or
  \<^verbatim>\<open>deductStock\<close> has the same documents in the same places; every document but the one
  found for the product code is unchanged, that one keeps its product code, name, description
  and price, and looking any other product code up gives what it gave before. This holds for
  every outcome of the call, the successful ones among them.
\<close>

theorem stock_mutation_frame:
  assumes found: "findItemById code w = Some (i, d)"
    and op: "w' = snd (updateStock env code qty w) \<or> w' = snd (deductStock env code qty w)"
  shows "length (ledger w') = length (ledger w)
     \<and> (\<forall>j < length (ledger w). j \<noteq> i \<longrightarrow> ledger w' ! j = ledger w ! j)
     \<and> productCode (ledger w' ! i) = productCode d \<and> name (ledger w' ! i) = name d
     \<and> description (ledger w' ! i) = description d \<and> price (ledger w' ! i) = price d
     \<and> (\<forall>c. c \<noteq> code \<longrightarrow> findItemById c w' = findItemById c w)"
proof -
  from op have "\<exists>q'. ledger w' = ledger w \<or> ledger w' = (ledger w)[i := d\<lparr>quantity := q'\<rparr>]"
  proof
    assume "w' = snd (updateStock env code qty w)"
    then have "ledger w' = (ledger w)[i := d\<lparr>quantity := qty\<rparr>]"
      by (simp add: updateStock_ledger[OF found])
    then show ?thesis by blast
  next
    assume "w' = snd (deductStock env code qty w)"
    then have "ledger w' = (if quantity d < qty then ledger w
            else (ledger w)[i := d\<lparr>quantity := numberSub (quantity d) qty\<rparr>])"
      by (simp add: deductStock_ledger[OF found])
    then show ?thesis by (cases "quantity d < qty") auto
  qed
  then obtain q' where "ledger w' = ledger w \<or> ledger w' = (ledger w)[i := d\<lparr>quantity := q'\<rparr>]"
    by blast
  from quantity_write_frame[OF found this] show ?thesis
    by (simp add: findItemById_def)
qed

theorem stock_mutation_frame_witness:
  "findItemById ''B'' shop = Some (1, itemB)
   \<and> ledger (snd (updateStock healthy ''B'' 3 shop)) ! 0 = itemA
   \<and> name (ledger (snd (updateStock healthy ''B'' 3 shop)) ! 1) = ''Gadget''
   \<and> price (ledger (snd (updateStock healthy ''B'' 3 shop)) ! 1) = 250
   \<and> findItemById ''A'' (snd (updateStock healthy ''B'' 3 shop)) = Some (0, itemA)
   \<and> ledger (snd (deductStock healthy ''B'' 3 shop)) ! 0 = itemA
   \<and> productCode (ledger (snd (deductStock healthy ''B'' 3 shop)) ! 1) = ''B''
   \<and> description (ledger (snd (deductStock healthy ''B'' 3 shop)) ! 1) = ''A gadget''
   \<and> length (ledger (snd (deductStock healthy ''B'' 3 shop))) = 2"
proof -
  have u: "snd (updateStock healthy ''B'' 3 shop) = snd (updateStock healthy ''B'' 3 shop)
           \<or> snd (updateStock healthy ''B'' 3 shop) = snd (deductStock healthy ''B'' 3 shop)"
    by simp
  have d: "snd (deductStock healthy ''B'' 3 shop) = snd (updateStock healthy ''B'' 3 shop)
           \<or> snd (deductStock healthy ''B'' 3 shop) = snd (deductStock healthy ''B'' 3 shop)"
    by simp
  note tu = stock_mutation_frame[OF shop_lookup(2) u]
  note td = stock_mutation_frame[OF shop_lookup(2) d]
  have len: "length (ledger shop) = 2" and a0: "ledger shop ! 0 = itemA"
    by (simp_all add: shop_def)
  have ne: "''A'' \<noteq> ''B''" by simp
  from tu len a0 have u0: "ledger (snd (updateStock healthy ''B'' 3 shop)) ! 0 = itemA" by simp
  from tu have u1: "name (ledger (snd (updateStock healthy ''B'' 3 shop)) ! 1) = ''Gadget''"
    "price (ledger (snd (updateStock healthy ''B'' 3 shop)) ! 1) = 250"
    by (simp_all add: itemB_def)
  from tu ne shop_lookup(1)
  have ua: "findItemById ''A'' (snd (updateStock healthy ''B'' 3 shop)) = Some (0, itemA)"
    by metis
  from td len a0 have d0: "ledger (snd (deductStock healthy ''B'' 3 shop)) ! 0 = itemA" by simp
  from td have d1: "productCode (ledger (snd (deductStock healthy ''B'' 3 shop)) ! 1) = ''B''"
    "description (ledger (snd (deductStock healthy ''B'' 3 shop)) ! 1) = ''A gadget''"
    by (simp_all add: itemB_def)
  from td len have dl: "length (ledger (snd (deductStock healthy ''B'' 3 shop))) = 2" by simp
  from shop_lookup(2) u0 u1 ua d0 d1 dl show ?thesis by blast
qed

section \<open>Connection retry\<close>

lemma numberToString_small:
  "numberToString 1 = ''1''" "numberToString 2 = ''2''" "numberToString 3 = ''3''"
  "numberToString 4 = ''4''" "numberToString 5 = ''5''" "numberToString 6 = ''6''"
  by (simp_all add: numberToString_def digits.simps digitChar_def)


text \<open>
  Claim C8. Against a broker that refuses every connection, \<^verbatim>\<open>connectWithRetry()\<close> calls
  \<^verbatim>\<open>connect()\<close> six times, not five: the first attempt and five retries, each retry
  after a delay of 5000 ms. The sixth failure is logged as "Attempt 6/5", followed by "Failed to
  connect after 5 attempts". After that the loop has ended with no channel and with the
  in-progress flag cleared.
\<close>

theorem connectWithRetry_refused_six_times:
  "conn_log (connectWithRetry refusing 0 idle) =
     [Attempt (ConnectThrows ''ECONNREFUSED''), Delay 5000,
      Attempt (ConnectThrows ''ECONNREFUSED''), Delay 5000,
      Attempt (ConnectThrows ''ECONNREFUSED''), Delay 5000,
      Attempt (ConnectThrows ''ECONNREFUSED''), Delay 5000,
      Attempt (ConnectThrows ''ECONNREFUSED''), Delay 5000,
      Attempt (ConnectThrows ''ECONNREFUSED'')]
   \<and> attempts (connectWithRetry refusing 0 idle) = 6
   \<and> logs (connectWithRetry refusing 0 idle) =
       [NestError ''Failed to connect to RabbitMQ (Attempt 1/5)'',
        NestError ''Failed to connect to RabbitMQ (Attempt 2/5)'',
        NestError ''Failed to connect to RabbitMQ (Attempt 3/5)'',
        NestError ''Failed to connect to RabbitMQ (Attempt 4/5)'',
        NestError ''Failed to connect to RabbitMQ (Attempt 5/5)'',
        NestError ''Failed to connect to RabbitMQ (Attempt 6/5)'',
        NestError ''Failed to connect after 5 attempts'']
   \<and> \<not> channel (connectWithRetry refusing 0 idle)
   \<and> \<not> isConnecting (connectWithRetry refusing 0 idle)"
  by (simp add: connectWithRetry.simps connect_def attempts_def refusing_def idle_def
      maxRetries_def retryDelay_def sleep_def nestLog_def Let_def numberToString_small)

section \<open>Publishing with one retry\<close>

lemma reconnects_simps [simp]:
  "reconnects (w\<lparr>logs := lg\<rparr>) = reconnects w"
  "reconnects (w\<lparr>channel_publishes := cp\<rparr>) = reconnects w"
  "reconnects (w\<lparr>publish_calls := pc\<rparr>) = reconnects w"
  by (simp_all add: reconnects_def)







lemma attempts_simps [simp]:
  "attempts (w\<lparr>isConnecting := b\<rparr>) = attempts w"
  "attempts (w\<lparr>logs := lg\<rparr>) = attempts w"
  "attempts (w\<lparr>channel_publishes := cp\<rparr>) = attempts w"
  "attempts (w\<lparr>publish_calls := pc\<rparr>) = attempts w"
  by (simp_all add: attempts_def)





section \<open>Routing keys of stock events\<close>

lemma publishTry_publishes:
  "\<exists>n\<le>2. channel_publishes (snd (publishTry env x k c w)) = channel_publishes w @
      replicate n \<lparr>exchange = x, routingKey = k, content = c, correlationId = None\<rparr>"
proof (cases "publish_script env (length (channel_publishes w))")
  case None
  from publishTry_accepts(2)[OF None, of x k c]
  have "channel_publishes (snd (publishTry env x k c w)) = channel_publishes w @
      replicate 1 \<lparr>exchange = x, routingKey = k, content = c, correlationId = None\<rparr>"
    by simp
  then show ?thesis by (intro exI[of _ 1]) simp
next
  case (Some m1)
  define p where "p = \<lparr>exchange = x, routingKey = k, content = c, correlationId = None\<rparr>"
  define w2 where "w2 = handleReconnect env
                (nestLog (NestError (''Failed to publish message to '' @ x))
                   (snd (channelPublish env x k c None w)))"
  obtain w1 where c1: "channelPublish env x k c None w = (Inl (Error m1), w1)"
    using Some by (simp add: channelPublish_def)
  have run: "publishTry env x k c w =
      (if channel w2 then channelPublish env x k c None w2 else (Inr (), w2))"
    unfolding w2_def publishTry_def by (simp add: c1 Let_def)
  have cp2: "channel_publishes w2 = channel_publishes w @ [p]"
    unfolding w2_def p_def by (simp add: handleReconnect_frame nestLog_def channelPublish_snd)
  show ?thesis
  proof (cases "channel w2")
    case True
    have "channel_publishes (snd (publishTry env x k c w)) = channel_publishes w @ replicate 2 p"
      unfolding run using True by (simp add: channelPublish_snd cp2 p_def numeral_2_eq_2)
    then show ?thesis unfolding p_def by (intro exI[of _ 2]) simp
  next
    case False
    have "channel_publishes (snd (publishTry env x k c w)) = channel_publishes w @ replicate 1 p"
      unfolding run using False by (simp add: cp2)
    then show ?thesis unfolding p_def by (intro exI[of _ 1]) simp
  qed
qed

lemma publish_publishes:
  "\<exists>n\<le>2. channel_publishes (snd (publish env x k c w)) = channel_publishes w @
      replicate n \<lparr>exchange = x, routingKey = k, content = c, correlationId = None\<rparr>"
proof -
  define p where "p = \<lparr>exchange = x, routingKey = k, content = c, correlationId = None\<rparr>"
  define w0 where "w0 = w\<lparr>publish_calls := publish_calls w @ [p]\<rparr>"
  define w1 where "w1 = connectWithRetry env 0
     (nestLog (NestWarn ''RabbitMQ channel not available, attempting to reconnect...'') w0)"
  have f: "channel_publishes w0 = channel_publishes w" "channel_publishes w1 = channel_publishes w"
    by (simp_all add: w0_def w1_def connectWithRetry_frame nestLog_def)
  have pub: "publish env x k c w =
      (if \<not> channel w then (if \<not> channel w1
                  then (Inl (Error ''RabbitMQ channel is not initialized''), w1)
                  else publishTry env x k c w1)
       else publishTry env x k c w0)"
    unfolding w1_def w0_def p_def by (simp add: publish_def Let_def)
  consider (none) "snd (publish env x k c w) = w1"
    | (one) "publish env x k c w = publishTry env x k c w1"
    | (zero) "publish env x k c w = publishTry env x k c w0"
    using pub by (cases "channel w"; cases "channel w1") simp_all
  then show ?thesis
  proof cases
    case none
    then have "channel_publishes (snd (publish env x k c w)) = channel_publishes w @ replicate 0 p"
      by (simp add: f)
    then show ?thesis unfolding p_def by (intro exI[of _ 0]) simp
  next
    case one
    with publishTry_publishes[of env x k c w1] f show ?thesis by simp
  next
    case zero
    with publishTry_publishes[of env x k c w0] f show ?thesis by simp
  qed
qed


text \<open>
  Claim C7, as stated, fails: the routing key is built from the lower-cased value of the enum
  member, and the values are \<^verbatim>\<open>STOCK_ADDED\<close>, \<^verbatim>\<open>STOCK_REDUCED\<close> and
  \<^verbatim>\<open>STOCK_UPDATED\<close>. A stock-added event goes out under
  \<^verbatim>\<open>inventory.stock.stock_added\<close>, which is none of \<^verbatim>\<open>inventory.stock.added\<close>,
  \<^verbatim>\<open>inventory.stock.reduced\<close>, \<^verbatim>\<open>inventory.stock.updated\<close>.
\<close>

theorem stock_event_routing_key_counterexample:
  "map routingKey (publish_calls (snd (publishStockUpdateEvent healthy restock shop))) =
     [''inventory.stock.stock_added'']
   \<and> ''inventory.stock.stock_added'' \<notin>
       {''inventory.stock.added'', ''inventory.stock.reduced'', ''inventory.stock.updated''}"
  by (simp add: publishStockUpdateEvent_frame restock_def shop_def toLowerCase_eventTypeValue)


text \<open>
  Claim C7, amended. Every event the orchestrator publishes is handed to the publisher once, for
  the exchange \<^verbatim>\<open>inventory.exchange\<close>, under the routing key
  \<^verbatim>\<open>inventory.stock.stock_added\<close>, \<^verbatim>\<open>inventory.stock.stock_reduced\<close> or
  \<^verbatim>\<open>inventory.stock.stock_updated\<close> according to its type; and whatever the publisher puts
  on the channel for it (nothing, the message, or the message and its one retry) carries that
  exchange and that key.
\<close>

theorem stock_event_routing_key:
  "publish_calls (snd (publishStockUpdateEvent env ev w)) = publish_calls w @
     [\<lparr>exchange = ''inventory.exchange'',
       routingKey = (case eventType ev of
                       STOCK_ADDED \<Rightarrow> ''inventory.stock.stock_added''
                     | STOCK_REDUCED \<Rightarrow> ''inventory.stock.stock_reduced''
                     | STOCK_UPDATED \<Rightarrow> ''inventory.stock.stock_updated''),
       content = EventPayload ev, correlationId = None\<rparr>]
   \<and> (\<exists>n\<le>2. channel_publishes (snd (publishStockUpdateEvent env ev w)) = channel_publishes w @
         replicate n
           \<lparr>exchange = ''inventory.exchange'',
            routingKey = (case eventType ev of
                            STOCK_ADDED \<Rightarrow> ''inventory.stock.stock_added''
                          | STOCK_REDUCED \<Rightarrow> ''inventory.stock.stock_reduced''
                          | STOCK_UPDATED \<Rightarrow> ''inventory.stock.stock_updated''),
            content = EventPayload ev, correlationId = None\<rparr>)"
proof -
  define k where "k = ''inventory.stock.'' @ toLowerCase (eventTypeValue (eventType ev))"
  have key: "k = (case eventType ev of
                       STOCK_ADDED \<Rightarrow> ''inventory.stock.stock_added''
                     | STOCK_REDUCED \<Rightarrow> ''inventory.stock.stock_reduced''
                     | STOCK_UPDATED \<Rightarrow> ''inventory.stock.stock_updated'')"
    unfolding k_def by (cases "eventType ev") (simp_all add: toLowerCase_eventTypeValue)
  have a: "publish_calls (snd (publishStockUpdateEvent env ev w)) = publish_calls w @
     [\<lparr>exchange = ''inventory.exchange'', routingKey = k,
       content = EventPayload ev, correlationId = None\<rparr>]"
    unfolding k_def using publishStockUpdateEvent_frame(2)[of env ev w] by (simp add: INVENTORY_def)
  from publishStockUpdateEvent_via_publish(2)[of env ev w]
  obtain lg where s: "snd (publishStockUpdateEvent env ev w) =
     (snd (publish env INVENTORY k (EventPayload ev) w))\<lparr>logs := lg\<rparr>"
    unfolding k_def by blast
  from publish_publishes[of env INVENTORY k "EventPayload ev" w]
  have b: "\<exists>n\<le>2. channel_publishes (snd (publishStockUpdateEvent env ev w)) = channel_publishes w @
         replicate n \<lparr>exchange = ''inventory.exchange'', routingKey = k,
            content = EventPayload ev, correlationId = None\<rparr>"
    unfolding s by (simp add: INVENTORY_def)
  from a b show ?thesis unfolding key by blast
qed

section \<open>The responders' batches\<close>

lemma findItemById_logs [simp]: "findItemById code (w\<lparr>logs := lg\<rparr>) = findItemById code w"
  by (simp add: findItemById_def)

lemma checkStock_readonly:
  "\<exists>lg'. checkStock code qty (w\<lparr>logs := lg\<rparr>) =
           (Inr (projr (fst (checkStock code qty w))), w\<lparr>logs := lg'\<rparr>)"
proof (cases "findItemById code w")
  case None
  have "checkStock code qty (w\<lparr>logs := lg\<rparr>) =
           (Inr (projr (fst (checkStock code qty w))),
            w\<lparr>logs := lg @ [EsLog (''Stock check failed: Product '' @ code @ '' not found'')
                                ''InventoryService'']\<rparr>)"
    using None by (simp add: checkStock_def esLog_def)
  then show ?thesis by blast
next
  case (Some a)
  have "checkStock code qty (w\<lparr>logs := lg\<rparr>) =
           (Inr (projr (fst (checkStock code qty w))), w\<lparr>logs := lg\<rparr>)"
    using Some by (simp add: checkStock_def Let_def)
  then show ?thesis by blast
qed

lemma checkStock_total: "fst (checkStock code qty w) = Inr (projr (fst (checkStock code qty w)))"
  by (simp add: checkStock_def Let_def split: option.splits)

lemma checkStock_currentStock:
  "currentStock (projr (fst (checkStock code qty w))) =
     (case findItemById code w of None \<Rightarrow> 0 | Some a \<Rightarrow> quantity (snd a))"
  by (simp add: checkStock_def Let_def split: option.splits)

lemma promiseAll_readonly:
  assumes step: "\<And>x lg. \<exists>lg'. f x (w\<lparr>logs := lg\<rparr>) = (Inr (g x), w\<lparr>logs := lg'\<rparr>)"
  shows "\<exists>lg'. promiseAll f xs (w\<lparr>logs := lg\<rparr>) = (Inr (map g xs), w\<lparr>logs := lg'\<rparr>)"
proof (induction xs arbitrary: lg)
  case Nil
  have "promiseAll f [] (w\<lparr>logs := lg\<rparr>) = (Inr (map g []), w\<lparr>logs := lg\<rparr>)" by simp
  then show ?case by blast
next
  case (Cons x xs)
  from step[where x=x and lg=lg] obtain lg1 where s1: "f x (w\<lparr>logs := lg\<rparr>) = (Inr (g x), w\<lparr>logs := lg1\<rparr>)"
    by blast
  from Cons.IH[where lg=lg1] obtain lg2 where
    s2: "promiseAll f xs (w\<lparr>logs := lg1\<rparr>) = (Inr (map g xs), w\<lparr>logs := lg2\<rparr>)" by blast
  have "promiseAll f (x # xs) (w\<lparr>logs := lg\<rparr>) = (Inr (map g (x # xs)), w\<lparr>logs := lg2\<rparr>)"
    by (simp add: s1 s2)
  then show ?case by blast
qed

lemma checkItem_readonly:
  "\<exists>lg'. checkItem item (w\<lparr>logs := lg\<rparr>) =
     (Inr \<lparr>detailProductCode = itemProductCode item,
           detailAvailable = available (projr (fst (checkStock (itemProductCode item) (itemQuantity item) w))),
           detailMessage = message (projr (fst (checkStock (itemProductCode item) (itemQuantity item) w))),
           detailCurrentStock = currentStock (projr (fst (checkStock (itemProductCode item) (itemQuantity item) w)))\<rparr>,
      w\<lparr>logs := lg'\<rparr>)"
proof -
  from checkStock_readonly[where code="itemProductCode item" and qty="itemQuantity item" and w=w and lg=lg]
  obtain lg' where c: "checkStock (itemProductCode item) (itemQuantity item) (w\<lparr>logs := lg\<rparr>) =
           (Inr (projr (fst (checkStock (itemProductCode item) (itemQuantity item) w))), w\<lparr>logs := lg'\<rparr>)"
    by blast
  show ?thesis unfolding checkItem_def c by (intro exI[of _ lg']) simp
qed

lemma deductCheckItem_readonly:
  "\<exists>lg'. deductCheckItem item (w\<lparr>logs := lg\<rparr>) =
     (Inr \<lparr>checkedProductCode = itemProductCode item,
           checkedQuantity = itemQuantity item,
           checkedAvailable = available (projr (fst (checkStock (itemProductCode item) (itemQuantity item) w))),
           checkedCurrentStock = currentStock (projr (fst (checkStock (itemProductCode item) (itemQuantity item) w)))\<rparr>,
      w\<lparr>logs := lg'\<rparr>)"
proof -
  from checkStock_readonly[where code="itemProductCode item" and qty="itemQuantity item" and w=w and lg=lg]
  obtain lg' where c: "checkStock (itemProductCode item) (itemQuantity item) (w\<lparr>logs := lg\<rparr>) =
           (Inr (projr (fst (checkStock (itemProductCode item) (itemQuantity item) w))), w\<lparr>logs := lg'\<rparr>)"
    by blast
  show ?thesis unfolding deductCheckItem_def c by (intro exI[of _ lg']) simp
qed

lemma reply_effects:
  "channel_publishes (snd (reply env m c w)) = channel_publishes w @
     [\<lparr>exchange = [], routingKey = replyTo m, content = c,
       correlationId = Some (requestCorrelationId m)\<rparr>]"
  "ledger (snd (reply env m c w)) = ledger w"
  "publish_calls (snd (reply env m c w)) = publish_calls w"
  "publish_script env (length (channel_publishes w)) = None \<Longrightarrow>
     fst (reply env m c w) = Inr () \<and> acks (snd (reply env m c w)) = acks w @ [deliveryTag m]"
  by (simp_all add: reply_def channelPublish_def ack_def Let_def split: option.splits)


lemma shop_checks:
  "fst (checkStock ''A'' 5 shop) =
     Inr \<lparr>available = True, message = ''Stock available'', currentStock = 10\<rparr>"
  "fst (checkStock ''B'' 20 shop) =
     Inr \<lparr>available = False, message = ''Insufficient stock. Requested: 20, Available: 10'',
          currentStock = 10\<rparr>"
  by (simp_all add: checkStock_def shop_lookup itemA_def itemB_def numberToString_examples)


text \<open>
  Claim C4. When at least one item of a batch fails the upfront availability check, the
  stock-deduct responder leaves the ledger as it was, hands no event to the publisher, and makes
  one reply: \<open>success = False\<close> with the message "Some items are not available in requested
  quantity", sent to the request's reply queue under the request's correlation id. When the
  broker accepts the reply, the delivery is acknowledged.
\<close>

theorem stockDeduct_all_or_nothing:
  assumes batch: "body m = Items items"
    and short: "\<exists>item \<in> set items. \<exists>r.
        fst (checkStock (itemProductCode item) (itemQuantity item) w) = Inr r \<and> \<not> available r"
  shows "ledger (snd (stockDeductHandler env (Some m) w)) = ledger w
     \<and> publish_calls (snd (stockDeductHandler env (Some m) w)) = publish_calls w
     \<and> channel_publishes (snd (stockDeductHandler env (Some m) w)) = channel_publishes w @
         [\<lparr>exchange = [], routingKey = replyTo m,
           content = DeductReply
             \<lparr>deductSuccess = False,
              deductMessage = ''Some items are not available in requested quantity'',
              deductions = None\<rparr>,
           correlationId = Some (requestCorrelationId m)\<rparr>]
     \<and> (publish_script env (length (channel_publishes w)) = None \<longrightarrow>
          fst (stockDeductHandler env (Some m) w) = Inr ()
          \<and> acks (snd (stockDeductHandler env (Some m) w)) = acks w @ [deliveryTag m])"
proof -
  define g where "g = (\<lambda>item :: StockCheckItem.
     \<lparr>checkedProductCode = itemProductCode item,
      checkedQuantity = itemQuantity item,
      checkedAvailable = available (projr (fst (checkStock (itemProductCode item) (itemQuantity item) w))),
      checkedCurrentStock = currentStock (projr (fst (checkStock (itemProductCode item) (itemQuantity item) w)))\<rparr>)"
  have "\<exists>lg'. promiseAll deductCheckItem items (w\<lparr>logs := logs w\<rparr>) =
           (Inr (map g items), w\<lparr>logs := lg'\<rparr>)"
    by (rule promiseAll_readonly) (simp add: g_def deductCheckItem_readonly)
  then obtain lg' where all: "promiseAll deductCheckItem items w = (Inr (map g items), w\<lparr>logs := lg'\<rparr>)"
    by auto
  from short obtain item r where it: "item \<in> set items"
    and r: "fst (checkStock (itemProductCode item) (itemQuantity item) w) = Inr r" "\<not> available r"
    by blast
  from r have "\<not> checkedAvailable (g item)" by (simp add: g_def)
  with it have na: "\<not> list_all checkedAvailable (map g items)"
    by (auto simp: list_all_iff)
  define w1 where "w1 = nestLog (NestError ''Error processing stock deduction'') (w\<lparr>logs := lg'\<rparr>)"
  have tr: "stockDeductTry env m w =
      (Inl (Error ''Some items are not available in requested quantity''), w\<lparr>logs := lg'\<rparr>)"
    using na by (simp add: stockDeductTry_def batch all Let_def)
  have run: "stockDeductHandler env (Some m) w =
      reply env m (DeductReply
             \<lparr>deductSuccess = False,
              deductMessage = ''Some items are not available in requested quantity'',
              deductions = None\<rparr>) w1"
    unfolding w1_def by (simp add: stockDeductHandler_def tr)
  have f1: "ledger w1 = ledger w" "publish_calls w1 = publish_calls w"
    "channel_publishes w1 = channel_publishes w" "acks w1 = acks w"
    by (simp_all add: w1_def nestLog_def)
  show ?thesis
    unfolding run using reply_effects(4)[of env w1 m] by (simp add: reply_effects f1)
qed

theorem stockDeduct_all_or_nothing_witness:
  "body order = Items [\<lparr>itemProductCode = ''A'', itemQuantity = 5\<rparr>,
                       \<lparr>itemProductCode = ''B'', itemQuantity = 20\<rparr>]
   \<and> fst (checkStock ''B'' 20 shop) =
        Inr \<lparr>available = False, message = ''Insufficient stock. Requested: 20, Available: 10'',
             currentStock = 10\<rparr>
   \<and> ledger (snd (stockDeductHandler healthy (Some order) shop)) = [itemA, itemB]
   \<and> channel_publishes (snd (stockDeductHandler healthy (Some order) shop)) =
        [\<lparr>exchange = [], routingKey = ''amq.gen-reply'',
          content = DeductReply
            \<lparr>deductSuccess = False,
             deductMessage = ''Some items are not available in requested quantity'',
             deductions = None\<rparr>,
          correlationId = Some ''corr-1''\<rparr>]
   \<and> fst (stockDeductHandler healthy (Some order) shop) = Inr ()
   \<and> acks (snd (stockDeductHandler healthy (Some order) shop)) = [7]"
proof -
  have b: "body order = Items [\<lparr>itemProductCode = ''A'', itemQuantity = 5\<rparr>,
                       \<lparr>itemProductCode = ''B'', itemQuantity = 20\<rparr>]"
    by (simp add: order_def)
  have s: "\<exists>item \<in> set [\<lparr>itemProductCode = ''A'', itemQuantity = 5\<rparr>,
                         \<lparr>itemProductCode = ''B'', itemQuantity = 20\<rparr>]. \<exists>r.
        fst (checkStock (itemProductCode item) (itemQuantity item) shop) = Inr r \<and> \<not> available r"
    using shop_checks(2) by simp
  note t = stockDeduct_all_or_nothing[OF b s, of healthy]
  have acc: "publish_script healthy (length (channel_publishes shop)) = None"
    by (simp add: healthy_def)
  from t have l: "ledger (snd (stockDeductHandler healthy (Some order) shop)) = [itemA, itemB]"
    by (simp add: shop_def)
  from t have c: "channel_publishes (snd (stockDeductHandler healthy (Some order) shop)) =
        [\<lparr>exchange = [], routingKey = ''amq.gen-reply'',
          content = DeductReply
            \<lparr>deductSuccess = False,
             deductMessage = ''Some items are not available in requested quantity'',
             deductions = None\<rparr>,
          correlationId = Some ''corr-1''\<rparr>]"
    by (simp add: shop_def order_def)
  from t acc have r: "fst (stockDeductHandler healthy (Some order) shop) = Inr ()" by blast
  from t acc have "acks (snd (stockDeductHandler healthy (Some order) shop)) =
      acks shop @ [deliveryTag order]" by blast
  then have a: "acks (snd (stockDeductHandler healthy (Some order) shop)) = [7]"
    by (simp add: shop_def order_def)
  from b shop_checks(2) l c r a show ?thesis by blast
qed


section \<open>The stock-check reply\<close>

lemma map_of_setProperty:
  "map_of (setProperty key v acc) c =
     (if key = ''__proto__'' then map_of acc c else ((map_of acc)(key \<mapsto> v)) c)"
  by (simp add: setProperty_def update_conv')

lemma availableStock_lookup:
  assumes "\<forall>r \<in> set rs. v r = h (k r)" and "c \<noteq> ''__proto__''"
  shows "map_of (foldl (\<lambda>acc r. setProperty (k r) (v r) acc) acc rs) c =
           (if c \<in> k ` set rs then Some (h c) else map_of acc c)"
  using assms
proof (induction rs arbitrary: acc)
  case Nil
  then show ?case by simp
next
  case (Cons r rs)
  then show ?case by (auto simp: map_of_setProperty)
qed

lemma availableStock_proto:
  "map_of (foldl (\<lambda>acc r. setProperty (k r) (v r) acc) acc rs) ''__proto__'' =
     map_of acc ''__proto__''"
proof (induction rs arbitrary: acc)
  case Nil
  then show ?case by simp
next
  case (Cons r rs)
  then show ?case by (simp add: map_of_setProperty)
qed

lemma availableStock_keys:
  "fst ` set (foldl (\<lambda>acc r. setProperty (k r) (v r) acc) acc rs) =
     fst ` set acc \<union> (k ` set rs - {''__proto__''})"
proof (induction rs arbitrary: acc)
  case Nil
  then show ?case by simp
next
  case (Cons r rs)
  have step: "fst ` set (setProperty (k r) (v r) acc) =
      fst ` set acc \<union> ({k r} - {''__proto__''})"
    by (simp add: setProperty_def dom_update)
  have "fst ` set (foldl (\<lambda>acc r. setProperty (k r) (v r) acc) acc (r # rs)) =
      (fst ` set acc \<union> ({k r} - {''__proto__''})) \<union> (k ` set rs - {''__proto__''})"
    by (simp add: Cons.IH step)
  also have "\<dots> = fst ` set acc \<union> (k ` set (r # rs) - {''__proto__''})"
    by auto
  finally show ?case .
qed

lemma stockCheck_batch_results:
  "\<exists>lg'. promiseAll checkItem items w =
     (Inr (map (\<lambda>item.
        \<lparr>detailProductCode = itemProductCode item,
         detailAvailable = available (projr (fst (checkStock (itemProductCode item) (itemQuantity item) w))),
         detailMessage = message (projr (fst (checkStock (itemProductCode item) (itemQuantity item) w))),
         detailCurrentStock = currentStock (projr (fst (checkStock (itemProductCode item) (itemQuantity item) w)))\<rparr>)
        items), w\<lparr>logs := lg'\<rparr>)"
proof -
  have "\<exists>lg'. promiseAll checkItem items (w\<lparr>logs := logs w\<rparr>) =
     (Inr (map (\<lambda>item.
        \<lparr>detailProductCode = itemProductCode item,
         detailAvailable = available (projr (fst (checkStock (itemProductCode item) (itemQuantity item) w))),
         detailMessage = message (projr (fst (checkStock (itemProductCode item) (itemQuantity item) w))),
         detailCurrentStock = currentStock (projr (fst (checkStock (itemProductCode item) (itemQuantity item) w)))\<rparr>)
        items), w\<lparr>logs := lg'\<rparr>)"
    by (rule promiseAll_readonly) (rule checkItem_readonly)
  then show ?thesis by simp
qed

text \<open>
  The reply of the stock-check responder, for every batch. Let \<open>res item\<close> be what
  \<^verbatim>\<open>checkStock\<close> returns for the item when the request arrives. The first message the
  responder puts on the channel is the reply, addressed to the request's reply queue under its
  correlation id, and in it: \<open>success\<close> is the conjunction of the items' \<open>available\<close>;
  \<open>availableStock\<close> has as keys the requested product codes other than \<^verbatim>\<open>__proto__\<close> and
  maps each of them to its current stock; \<open>details\<close> holds one result per item in request
  order; and the message is "All items in stock" when all are available, otherwise the messages
  of exactly the unavailable items joined by "; ". The ledger is unchanged. When the broker
  accepts the reply, it is the only message and the delivery is acknowledged.
\<close>

lemma stockCheck_reply:
  assumes batch: "body m = Items items"
  shows "\<exists>res r rest.
      (\<forall>item. fst (checkStock (itemProductCode item) (itemQuantity item) w) = Inr (res item))
    \<and> channel_publishes (snd (stockCheckHandler env (Some m) w)) = channel_publishes w @
         \<lparr>exchange = [], routingKey = replyTo m, content = CheckReply r,
          correlationId = Some (requestCorrelationId m)\<rparr> # rest
    \<and> checkSuccess r = (\<forall>item \<in> set items. available (res item))
    \<and> (\<forall>item \<in> set items. itemProductCode item \<noteq> ''__proto__'' \<longrightarrow>
          map_of (availableStock r) (itemProductCode item) = Some (currentStock (res item)))
    \<and> map_of (availableStock r) ''__proto__'' = None
    \<and> fst ` set (availableStock r) = itemProductCode ` set items - {''__proto__''}
    \<and> details r = map (\<lambda>item. \<lparr>detailProductCode = itemProductCode item,
                                   detailAvailable = available (res item),
                                   detailMessage = message (res item),
                                   detailCurrentStock = currentStock (res item)\<rparr>) items
    \<and> checkMessage r =
         (if \<forall>item \<in> set items. available (res item) then ''All items in stock''
          else join ''; '' (map (\<lambda>item. message (res item))
                               (filter (\<lambda>item. \<not> available (res item)) items)))
    \<and> ledger (snd (stockCheckHandler env (Some m) w)) = ledger w
    \<and> (publish_script env (length (channel_publishes w)) = None \<longrightarrow>
         rest = [] \<and> fst (stockCheckHandler env (Some m) w) = Inr ()
         \<and> acks (snd (stockCheckHandler env (Some m) w)) = acks w @ [deliveryTag m])"
proof -
  define res where "res = (\<lambda>item :: StockCheckItem.
     projr (fst (checkStock (itemProductCode item) (itemQuantity item) w)))"
  define g where "g = (\<lambda>item. \<lparr>detailProductCode = itemProductCode item,
                                   detailAvailable = available (res item),
                                   detailMessage = message (res item),
                                   detailCurrentStock = currentStock (res item)\<rparr>)"
  define r where "r = responseMessage (map g items)"
  define h where "h = (\<lambda>c. case findItemById c w of None \<Rightarrow> (0::int) | Some a \<Rightarrow> quantity (snd a))"
  from stockCheck_batch_results[of items w]
  obtain lg' where all: "promiseAll checkItem items w = (Inr (map g items), w\<lparr>logs := lg'\<rparr>)"
    unfolding g_def res_def by blast
  define w1 where "w1 = w\<lparr>logs := lg'\<rparr>"
  have f1: "ledger w1 = ledger w" "channel_publishes w1 = channel_publishes w" "acks w1 = acks w"
    by (simp_all add: w1_def)
  have tr: "stockCheckTry env m w = reply env m (CheckReply r) w1"
    unfolding w1_def r_def by (simp add: stockCheckTry_def batch all)
  have pins: "\<forall>item. fst (checkStock (itemProductCode item) (itemQuantity item) w) = Inr (res item)"
    unfolding res_def by (rule allI) (rule checkStock_total)
  have hres: "\<And>item. currentStock (res item) = h (itemProductCode item)"
    unfolding res_def h_def by (simp add: checkStock_currentStock)
  have succ: "checkSuccess r = (\<forall>item \<in> set items. available (res item))"
    by (simp add: r_def responseMessage_def list_all_iff g_def)
  have stock: "\<forall>item \<in> set items. itemProductCode item \<noteq> ''__proto__'' \<longrightarrow>
          map_of (availableStock r) (itemProductCode item) = Some (currentStock (res item))"
  proof (intro ballI impI)
    fix item assume it: "item \<in> set items" and np: "itemProductCode item \<noteq> ''__proto__''"
    have "\<forall>d \<in> set (map g items). detailCurrentStock d = h (detailProductCode d)"
      by (auto simp: g_def hres)
    from availableStock_lookup[where rs="map g items" and v=detailCurrentStock and h=h
        and k=detailProductCode and acc="[]" and c="itemProductCode item", OF this np]
    have "map_of (availableStock r) (itemProductCode item) =
        (if itemProductCode item \<in> detailProductCode ` set (map g items)
         then Some (h (itemProductCode item)) else None)"
      by (simp add: r_def responseMessage_def)
    moreover have "itemProductCode item \<in> detailProductCode ` set (map g items)"
      using it by (force simp: g_def)
    ultimately show "map_of (availableStock r) (itemProductCode item) = Some (currentStock (res item))"
      by (simp add: hres)
  qed
  have proto: "map_of (availableStock r) ''__proto__'' = None"
    using availableStock_proto[of detailProductCode detailCurrentStock "[]" "map g items"]
    by (simp add: r_def responseMessage_def)
  have keys: "fst ` set (availableStock r) = itemProductCode ` set items - {''__proto__''}"
    using availableStock_keys[of detailProductCode detailCurrentStock "[]" "map g items"]
    by (simp add: r_def responseMessage_def g_def image_image)
  have det: "details r = map g items" by (simp add: r_def responseMessage_def)
  have fm: "map detailMessage (filter (\<lambda>d. \<not> detailAvailable d) (map g items)) =
      map (\<lambda>item. message (res item)) (filter (\<lambda>item. \<not> available (res item)) items)"
    by (simp add: filter_map comp_def g_def)
  have msg: "checkMessage r =
         (if \<forall>item \<in> set items. available (res item) then ''All items in stock''
          else join ''; '' (map (\<lambda>item. message (res item))
                               (filter (\<lambda>item. \<not> available (res item)) items)))"
    using succ fm by (simp add: r_def responseMessage_def)
  define R where "R = \<lparr>exchange = [], routingKey = replyTo m, content = CheckReply r,
          correlationId = Some (requestCorrelationId m)\<rparr>"
  obtain o1 w2 where rp: "reply env m (CheckReply r) w1 = (o1, w2)"
    by (cases "reply env m (CheckReply r) w1")
  from reply_effects(1,2)[of env m "CheckReply r" w1] rp
  have f2: "channel_publishes w2 = channel_publishes w @ [R]" "ledger w2 = ledger w"
    by (simp_all add: f1 R_def)
  have "\<exists>rest. channel_publishes (snd (stockCheckHandler env (Some m) w)) = channel_publishes w @ R # rest
      \<and> ledger (snd (stockCheckHandler env (Some m) w)) = ledger w
      \<and> (publish_script env (length (channel_publishes w)) = None \<longrightarrow>
         rest = [] \<and> fst (stockCheckHandler env (Some m) w) = Inr ()
         \<and> acks (snd (stockCheckHandler env (Some m) w)) = acks w @ [deliveryTag m])"
  proof (cases o1)
    case (Inr u)
    have run: "stockCheckHandler env (Some m) w = (Inr (), w2)"
      by (simp add: stockCheckHandler_def tr rp Inr)
    have "publish_script env (length (channel_publishes w)) = None \<longrightarrow>
            acks w2 = acks w @ [deliveryTag m]"
      using reply_effects(4)[of env w1 m "CheckReply r"] rp by (simp add: f1)
    then show ?thesis
      unfolding run by (intro exI[of _ "[]"]) (simp add: f2)
  next
    case (Inl e)
    define E where "E = CheckReply \<lparr>checkSuccess = False, checkMessage = errorMessage e,
                              availableStock = [], details = []\<rparr>"
    define w3 where "w3 = nestLog (NestError ''Error processing stock check request'') w2"
    have run: "stockCheckHandler env (Some m) w = reply env m E w3"
      unfolding E_def w3_def by (simp add: stockCheckHandler_def tr rp Inl)
    have f3: "channel_publishes w3 = channel_publishes w @ [R]" "ledger w3 = ledger w"
      by (simp_all add: w3_def nestLog_def f2)
    have thrown: "publish_script env (length (channel_publishes w)) \<noteq> None"
      using reply_effects(4)[of env w1 m "CheckReply r"] rp Inl by (auto simp: f1)
    show ?thesis
      unfolding run using thrown
      by (intro exI[of _ "[\<lparr>exchange = [], routingKey = replyTo m, content = E,
            correlationId = Some (requestCorrelationId m)\<rparr>]"])
         (simp add: reply_effects f3)
  qed
  then obtain rest where fin:
    "channel_publishes (snd (stockCheckHandler env (Some m) w)) = channel_publishes w @ R # rest"
    "ledger (snd (stockCheckHandler env (Some m) w)) = ledger w"
    "publish_script env (length (channel_publishes w)) = None \<longrightarrow>
         rest = [] \<and> fst (stockCheckHandler env (Some m) w) = Inr ()
         \<and> acks (snd (stockCheckHandler env (Some m) w)) = acks w @ [deliveryTag m]"
    by (elim exE conjE) (rule that)
  show ?thesis
    apply (rule exI[of _ res], rule exI[of _ r], rule exI[of _ rest])
    using pins fin succ stock proto keys det msg unfolding R_def g_def
    by (intro conjI) assumption+
qed

text \<open>
  The batch of five A and twenty B against ten of each: \<open>success = False\<close>, A available, B not,
  and B's insufficiency text as the message.
\<close>

lemma stockCheck_reply_example:
  "body order = Items [\<lparr>itemProductCode = ''A'', itemQuantity = 5\<rparr>,
                       \<lparr>itemProductCode = ''B'', itemQuantity = 20\<rparr>]
   \<and> (\<exists>r. channel_publishes (snd (stockCheckHandler healthy (Some order) shop)) =
             [\<lparr>exchange = [], routingKey = ''amq.gen-reply'', content = CheckReply r,
               correlationId = Some ''corr-1''\<rparr>]
          \<and> checkSuccess r = False
          \<and> checkMessage r = ''Insufficient stock. Requested: 20, Available: 10''
          \<and> map_of (availableStock r) ''A'' = Some 10
          \<and> map_of (availableStock r) ''B'' = Some 10
          \<and> details r =
               [\<lparr>detailProductCode = ''A'', detailAvailable = True,
                 detailMessage = ''Stock available'', detailCurrentStock = 10\<rparr>,
                \<lparr>detailProductCode = ''B'', detailAvailable = False,
                 detailMessage = ''Insufficient stock. Requested: 20, Available: 10'',
                 detailCurrentStock = 10\<rparr>])"
proof -
  define a where "a = \<lparr>itemProductCode = ''A'', itemQuantity = 5\<rparr>"
  define b where "b = \<lparr>itemProductCode = ''B'', itemQuantity = 20\<rparr>"
  have bd: "body order = Items [a, b]"
    by (simp add: order_def a_def b_def)
  from stockCheck_reply[OF bd, of shop healthy]
  obtain res r rest where
    pins: "\<forall>item. fst (checkStock (itemProductCode item) (itemQuantity item) shop) = Inr (res item)"
    and cp: "channel_publishes (snd (stockCheckHandler healthy (Some order) shop)) =
         channel_publishes shop @
         \<lparr>exchange = [], routingKey = replyTo order, content = CheckReply r,
          correlationId = Some (requestCorrelationId order)\<rparr> # rest"
    and succ: "checkSuccess r = (\<forall>item \<in> set [a, b]. available (res item))"
    and stock: "\<forall>item \<in> set [a, b]. itemProductCode item \<noteq> ''__proto__'' \<longrightarrow>
          map_of (availableStock r) (itemProductCode item) = Some (currentStock (res item))"
    and det: "details r = map (\<lambda>item. \<lparr>detailProductCode = itemProductCode item,
                                   detailAvailable = available (res item),
                                   detailMessage = message (res item),
                                   detailCurrentStock = currentStock (res item)\<rparr>) [a, b]"
    and msg: "checkMessage r =
         (if \<forall>item \<in> set [a, b]. available (res item) then ''All items in stock''
          else join ''; '' (map (\<lambda>item. message (res item))
                               (filter (\<lambda>item. \<not> available (res item)) [a, b])))"
    and acc: "publish_script healthy (length (channel_publishes shop)) = None \<longrightarrow>
         rest = [] \<and> fst (stockCheckHandler healthy (Some order) shop) = Inr ()
         \<and> acks (snd (stockCheckHandler healthy (Some order) shop)) = acks shop @ [deliveryTag order]"
    by (elim exE conjE) (rule that)
  from pins[rule_format, of a] shop_checks(1)
  have ra: "res a = \<lparr>available = True, message = ''Stock available'', currentStock = 10\<rparr>"
    by (simp add: a_def)
  from pins[rule_format, of b] shop_checks(2)
  have rb: "res b = \<lparr>available = False,
      message = ''Insufficient stock. Requested: 20, Available: 10'', currentStock = 10\<rparr>"
    by (simp add: b_def)
  from acc have rest: "rest = []" by (simp add: healthy_def)
  have c1: "channel_publishes (snd (stockCheckHandler healthy (Some order) shop)) =
             [\<lparr>exchange = [], routingKey = ''amq.gen-reply'', content = CheckReply r,
               correlationId = Some ''corr-1''\<rparr>]"
    using cp rest by (simp add: shop_def order_def)
  have c2: "checkSuccess r = False" using succ ra rb by simp
  have c3: "checkMessage r = ''Insufficient stock. Requested: 20, Available: 10''"
    using msg ra rb by simp
  have c4: "map_of (availableStock r) ''A'' = Some 10" "map_of (availableStock r) ''B'' = Some 10"
    using stock ra rb by (simp_all add: a_def b_def)
  have c5: "details r =
               [\<lparr>detailProductCode = ''A'', detailAvailable = True,
                 detailMessage = ''Stock available'', detailCurrentStock = 10\<rparr>,
                \<lparr>detailProductCode = ''B'', detailAvailable = False,
                 detailMessage = ''Insufficient stock. Requested: 20, Available: 10'',
                 detailCurrentStock = 10\<rparr>]"
    using det ra rb by (simp add: a_def b_def)
  have "\<exists>r. channel_publishes (snd (stockCheckHandler healthy (Some order) shop)) =
             [\<lparr>exchange = [], routingKey = ''amq.gen-reply'', content = CheckReply r,
               correlationId = Some ''corr-1''\<rparr>]
          \<and> checkSuccess r = False
          \<and> checkMessage r = ''Insufficient stock. Requested: 20, Available: 10''
          \<and> map_of (availableStock r) ''A'' = Some 10
          \<and> map_of (availableStock r) ''B'' = Some 10
          \<and> details r =
               [\<lparr>detailProductCode = ''A'', detailAvailable = True,
                 detailMessage = ''Stock available'', detailCurrentStock = 10\<rparr>,
                \<lparr>detailProductCode = ''B'', detailAvailable = False,
                 detailMessage = ''Insufficient stock. Requested: 20, Available: 10'',
                 detailCurrentStock = 10\<rparr>]"
    using c1 c2 c3 c4 c5 by (intro exI[of _ r] conjI) assumption+
  moreover have "body order = Items [\<lparr>itemProductCode = ''A'', itemQuantity = 5\<rparr>,
                       \<lparr>itemProductCode = ''B'', itemQuantity = 20\<rparr>]"
    by (simp add: order_def)
  ultimately show ?thesis by (intro conjI) assumption+
qed

text \<open>
  Claim C9. The claim holds but for one product code. A batch that names the product code
  \<^verbatim>\<open>__proto__\<close> gets a reply whose \<open>details\<close> carry that item with its current stock,
  while \<open>availableStock\<close> has no entry for it: against a ledger with ten of A and seven of
  \<^verbatim>\<open>__proto__\<close>, the request for five of A and one of \<^verbatim>\<open>__proto__\<close> is answered with
  \<open>availableStock\<close> holding A alone.
\<close>

theorem stockCheck_reply_drops_proto:
  "map content (channel_publishes (snd (stockCheckHandler healthy (Some probe) lab))) =
     [CheckReply
        \<lparr>checkSuccess = True, checkMessage = ''All items in stock'',
         availableStock = [(''A'', 10)],
         details =
           [\<lparr>detailProductCode = ''A'', detailAvailable = True,
             detailMessage = ''Stock available'', detailCurrentStock = 10\<rparr>,
            \<lparr>detailProductCode = ''__proto__'', detailAvailable = True,
             detailMessage = ''Stock available'', detailCurrentStock = 7\<rparr>]\<rparr>]
   \<and> map_of [(''A'', 10 :: int)] ''__proto__'' = None"
  by (simp add: stockCheckHandler_def stockCheckTry_def probe_def lab_def checkItem_def
      checkStock_def findItemById_def findOne_def itemA_def itemP_def reply_def
      channelPublish_def healthy_def responseMessage_def setProperty_def ack_def Let_def)

end
